theory Spec2Isabelle
  imports Complex_Main "HOL-Library.Sublist"
begin

section \<open>Python values\<close>

text \<open>
  A Python \<open>str\<close> is a sequence of Unicode code points and \<open>len\<close> counts code points,
  so a string is a list of code-point numbers. \<open>str\<close> embeds an ASCII literal.
\<close>

type_synonym pystr = "nat list"

definition str :: "string \<Rightarrow> pystr" where
  "str s = map of_char s"

text \<open>The code points that \<open>str.strip()\<close> removes (those for which \<open>str.isspace\<close> holds).\<close>

definition isspace :: "nat \<Rightarrow> bool" where
  "isspace c \<longleftrightarrow>
     (9 \<le> c \<and> c \<le> 13) \<or> (28 \<le> c \<and> c \<le> 32) \<or> c = 133 \<or> c = 160 \<or> c = 5760 \<or>
     (8192 \<le> c \<and> c \<le> 8202) \<or> c = 8232 \<or> c = 8233 \<or> c = 8239 \<or> c = 8287 \<or> c = 12288"

definition strip :: "pystr \<Rightarrow> pystr" where
  "strip s = rev (dropWhile isspace (rev (dropWhile isspace s)))"

text \<open>Decimal rendering of a non-negative integer, as an f-string \<open>{n}\<close> produces it.\<close>

function str_of_nat :: "nat \<Rightarrow> pystr" where
  "str_of_nat n = (if n < 10 then [48 + n] else str_of_nat (n div 10) @ [48 + n mod 10])"
  by pat_completeness auto
termination
  by (relation "measure id") auto

declare str_of_nat.simps [simp del]

text \<open>
  A Python \<open>float\<close>: a finite value, an infinity or NaN. Finite values are kept as reals;
  the rounding of individual operations is not modelled, overflow to infinity is.
\<close>

datatype pyfloat = Finite real | PosInf | NegInf | NaN

text \<open>
  Exceptions. The first four carry their message (\<open>str(e)\<close>); \<open>OtherError\<close> is any other
  subclass of \<open>Exception\<close>, with its class name and message; \<open>HTTPException\<close> carries the
  status code and the detail.
\<close>

datatype exn =
    ValueError pystr
  | OverflowError pystr
  | FHError pystr
  | TiError pystr
  | OtherError pystr pystr
  | HTTPException nat pystr

fun exn_str :: "exn \<Rightarrow> pystr" where
  "exn_str (ValueError m) = m"
| "exn_str (OverflowError m) = m"
| "exn_str (FHError m) = m"
| "exn_str (TiError m) = m"
| "exn_str (OtherError c m) = m"
| "exn_str (HTTPException code d) = str_of_nat code @ str '': '' @ d"

text \<open>\<open>repr(e)\<close> of an exception built from one message: \<open>Class('message')\<close>.\<close>

fun exn_repr :: "exn \<Rightarrow> pystr" where
  "exn_repr (ValueError m) = str ''ValueError('' @ [39] @ m @ [39] @ str '')''"
| "exn_repr (OverflowError m) = str ''OverflowError('' @ [39] @ m @ [39] @ str '')''"
| "exn_repr (FHError m) = str ''FHError('' @ [39] @ m @ [39] @ str '')''"
| "exn_repr (TiError m) = str ''TiError('' @ [39] @ m @ [39] @ str '')''"
| "exn_repr (OtherError c m) = c @ str ''('' @ [39] @ m @ [39] @ str '')''"
| "exn_repr (HTTPException code d) =
     str ''HTTPException(status_code='' @ str_of_nat code @ str '', detail='' @ [39] @ d @ [39] @ str '')''"

text \<open>A \<open>Dict[str, str]\<close>.\<close>

type_synonym dict = "pystr \<rightharpoonup> pystr"

section \<open>Context service: the one-liner builder (context_api/app.py)\<close>

text \<open>The request model \<open>OneLinerIn\<close>.\<close>

record OneLinerIn =
  class_label :: pystr
  confidence :: pyfloat
  title :: pystr
  publisher :: pystr
  url :: pystr
  req_refs :: "dict option list option"

definition strategy_phrase :: "pystr \<Rightarrow> pystr" where
  "strategy_phrase cls =
     (if cls = str ''IRON_CONDOR'' then str ''Range-bound, IV watch''
      else if cls = str ''DEBIT_CALL'' then str ''Bullish, defined risk''
      else if cls = str ''DEBIT_PUT'' then str ''Bearish, defined risk''
      else if cls = str ''COVERED_CALL'' then str ''Income; upside capped''
      else if cls = str ''NO_ACTION'' then str ''Signal unclear''
      else str ''Review setup'')"

text \<open>
  The loop of \<open>_build_index_suffix\<close> over \<open>refs[:3]\<close>: \<open>n\<close> is the next number, \<open>nums\<close> the
  markers so far, \<open>shown\<close> the \<open>{"n": n, "url": url}\<close> entries so far. A slot counts when it
  is a dict (an empty dict has no \<open>url\<close>) whose \<open>url\<close> is a non-empty string.
\<close>

fun index_loop :: "dict option list \<Rightarrow> nat \<Rightarrow> pystr list \<Rightarrow> (nat \<times> pystr) list
    \<Rightarrow> pystr list \<times> (nat \<times> pystr) list" where
  "index_loop [] n nums shown = (nums, shown)"
| "index_loop (slot # rest) n nums shown =
     (case slot of
        None \<Rightarrow> index_loop rest n nums shown
      | Some d \<Rightarrow>
          (case d (str ''url'') of
             None \<Rightarrow> index_loop rest n nums shown
           | Some u \<Rightarrow>
               if u = [] then index_loop rest n nums shown
               else index_loop rest (n + 1)
                      (nums @ [str ''['' @ str_of_nat n @ str '']''])
                      (shown @ [(n, u)])))"

definition build_index_suffix :: "dict option list option \<Rightarrow> pystr \<times> (nat \<times> pystr) list" where
  "build_index_suffix rs =
     (case rs of
        None \<Rightarrow> ([], [])
      | Some l \<Rightarrow>
          if l = [] then ([], [])
          else
            (let (nums, shown) = index_loop (take 3 l) 1 [] []
             in if nums = [] then ([], [])
                else (str '' ('' @ concat nums @ str '')'', shown)))"

text \<open>
  The two non-ASCII literals of \<open>one_liner\<close>, code point by code point as the source file
  holds them: the marker closing the source clause (U+00E2 U+20AC U+201D) and the marker
  appended on truncation (U+00E2 U+20AC U+00A6).
\<close>

definition dash_marker :: pystr where
  "dash_marker = [226, 8364, 8221]"

definition ellipsis_marker :: pystr where
  "ellipsis_marker = [226, 8364, 166]"

text \<open>
  \<open>int(round((x.confidence or 0.0) * 100))\<close>. \<open>round\<close> raises \<open>ValueError\<close> on NaN and
  \<open>OverflowError\<close> on an infinity; a finite double times 100 becomes an infinity when its
  magnitude reaches \<open>2^1024 - 2^970\<close>. Otherwise the value is rounded half to even.
\<close>

definition round_half_even :: "real \<Rightarrow> int" where
  "round_half_even r =
     (let f = \<lfloor>r\<rfloor>; d = r - of_int f
      in if d < 1/2 then f else if 1/2 < d then f + 1 else if even f then f else f + 1)"

definition conf_pct :: "pyfloat \<Rightarrow> exn + int" where
  "conf_pct c =
     (case c of
        NaN \<Rightarrow> Inl (ValueError (str ''cannot convert float NaN to integer''))
      | PosInf \<Rightarrow> Inl (OverflowError (str ''cannot convert float infinity to integer''))
      | NegInf \<Rightarrow> Inl (OverflowError (str ''cannot convert float infinity to integer''))
      | Finite r \<Rightarrow>
          if 2 ^ 1024 - 2 ^ 970 \<le> \<bar>r * 100\<bar>
          then Inl (OverflowError (str ''cannot convert float infinity to integer''))
          else Inr (round_half_even (r * 100)))"

text \<open>The response \<open>{"text": text, "refs_numbers": refs_numbers}\<close>.\<close>

record OneLinerOut =
  text_out :: pystr
  refs_numbers :: "(nat \<times> pystr) list"

definition one_liner :: "OneLinerIn \<Rightarrow> exn + OneLinerOut" where
  "one_liner x =
     (case conf_pct (confidence x) of
        Inl e \<Rightarrow> Inl e
      | Inr pct \<Rightarrow>
          (let phrase = strategy_phrase (class_label x);
               base = strip (phrase @ str ''. Source: ''
                        @ (if publisher x = [] then str ''News'' else publisher x)
                        @ str '' '' @ dash_marker);
               (suffix, numbers) = build_index_suffix (req_refs x);
               t = base @ suffix;
               t' = (if length t > 180 then take 177 t @ ellipsis_marker else t)
           in Inr \<lparr>text_out = t', refs_numbers = numbers\<rparr>))"

section \<open>Context service: feature aggregation (context_api/features.py)\<close>

subsection \<open>Payload and provider data\<close>

record features =
  sent_mean :: real
  sent_std :: real
  r_1m :: real
  r_5m :: real
  above_sma20 :: bool
  mins_since_news :: int
  rv20 :: real
  earnings_soon :: bool
  liquidity_flag :: bool

text \<open>The \<open>quote\<close> entry of a payload; its \<open>last\<close> key is the field \<open>last_px\<close>.\<close>

record quote =
  last_px :: real
  bid :: "real option"
  ask :: "real option"
  quality :: pystr

text \<open>
  The payload. \<open>ts\<close> is the result of \<open>iso_now()\<close>, kept as the whole seconds since the
  epoch that the ISO string denotes.
\<close>

record payload =
  features :: features
  top_headline :: "dict option"
  refs :: "dict option list"
  refs_sources :: "pystr list"
  error :: "pystr option"
  quote :: quote
  ts :: int

text \<open>
  What the quote providers return: a dict whose \<open>last\<close>, \<open>bid\<close> and \<open>ask\<close> may be absent.
  Of a candle the aggregator reads \<open>high\<close>, \<open>low\<close>, \<open>close\<close> and \<open>volume\<close>.
\<close>

record raw_quote =
  q_last :: "real option"
  q_bid :: "real option"
  q_ask :: "real option"

record candle =
  high :: real
  low :: real
  close :: real
  volume :: real

subsection \<open>Environment and process state\<close>

text \<open>
  The modules imported by features.py (providers, indicators) and the services it calls
  are not part of the modelled sources: each is a field of the environment, giving the
  outcome of a call, a value or the exception raised. \<open>post_sentiment\<close> is the whole body
  of the \<open>try\<close> in \<open>_sent_from_headlines\<close>; \<open>fromisoformat\<close> is the instant (microseconds
  since the epoch, a naive time read as UTC) that \<open>datetime.fromisoformat\<close> parses, or
  \<open>None\<close> when it raises.
\<close>

record env =
  LIVE_PROVIDERS :: "pystr option"
  fetch_headlines :: "pystr \<Rightarrow> nat \<Rightarrow> exn + dict list"
  fetch_headlines_yahoo :: "pystr \<Rightarrow> nat \<Rightarrow> exn + dict list"
  post_sentiment :: "pystr list \<Rightarrow> exn + real \<times> real"
  fetch_quote_tiingo :: "pystr \<Rightarrow> exn + raw_quote"
  fetch_candles_tiingo :: "pystr \<Rightarrow> nat \<Rightarrow> pystr \<Rightarrow> exn + candle list"
  fetch_quote_finnhub :: "pystr \<Rightarrow> exn + raw_quote"
  fetch_earnings_finnhub :: "pystr \<Rightarrow> exn + pystr option"
  atr_normalized :: "real list \<Rightarrow> real list \<Rightarrow> real list \<Rightarrow> nat \<Rightarrow> exn + real"
  ret_pct :: "real list \<Rightarrow> nat \<Rightarrow> exn + real"
  above_sma20_of :: "real list \<Rightarrow> exn + bool"
  fromisoformat :: "pystr \<Rightarrow> int option"

text \<open>The calls that leave the function: providers, the sentiment service, the cache.\<close>

datatype call =
    FetchHeadlines pystr
  | FetchHeadlinesYahoo pystr
  | PostSentiment
  | FetchQuoteTiingo pystr
  | FetchCandlesTiingo pystr
  | FetchQuoteFinnhub pystr
  | FetchEarningsFinnhub pystr
  | GetCached pystr
  | PutCached pystr

text \<open>
  The process state: the module-level \<open>_QUOTE_RING\<close>, the cache, the clock and the log of
  calls made. Times are microseconds since the epoch. \<open>clock\<close> is the last value
  \<open>datetime.now\<close> returned and \<open>ticks\<close> the change of the wall clock before each of the
  coming reads: negative where the clock is set back.
\<close>

record state =
  QUOTE_RING :: "pystr \<rightharpoonup> (int \<times> real) list"
  CACHE :: "pystr \<rightharpoonup> payload"
  clock :: int
  ticks :: "int list"
  calls :: "call list"

type_synonym 'a action = "state \<Rightarrow> (exn + 'a) \<times> state"

definition and_then :: "'a action \<Rightarrow> ('a \<Rightarrow> 'b action) \<Rightarrow> 'b action" where
  "and_then m f st = (case m st of (Inl e, st') \<Rightarrow> (Inl e, st') | (Inr v, st') \<Rightarrow> f v st')"

definition done_with :: "'a \<Rightarrow> 'a action" where
  "done_with v st = (Inr v, st)"

definition lift :: "(state \<Rightarrow> 'a \<times> state) \<Rightarrow> 'a action" where
  "lift f st = (case f st of (v, st') \<Rightarrow> (Inr v, st'))"

definition pure_result :: "exn + 'a \<Rightarrow> 'a action" where
  "pure_result r st = (r, st)"

definition provider :: "call \<Rightarrow> exn + 'a \<Rightarrow> 'a action" where
  "provider c r st = (r, st\<lparr>calls := calls st @ [c]\<rparr>)"

definition now :: "state \<Rightarrow> int \<times> state" where
  "now st =
     (case ticks st of
        [] \<Rightarrow> (clock st, st)
      | d # ds \<Rightarrow> (clock st + d, st\<lparr>clock := clock st + d, ticks := ds\<rparr>))"

definition minute :: int where
  "minute = 60000000"

definition iso_now :: "state \<Rightarrow> int \<times> state" where
  "iso_now st = (case now st of (t, st') \<Rightarrow> (t div 1000000, st'))"

definition replace_Z :: "pystr \<Rightarrow> pystr" where
  "replace_Z s = concat (map (\<lambda>c. if c = 90 then str ''+00:00'' else [c]) s)"

definition parse_iso_aware :: "env \<Rightarrow> pystr \<Rightarrow> state \<Rightarrow> int \<times> state" where
  "parse_iso_aware env s st =
     (if s = [] then now st
      else case fromisoformat env (replace_Z s) of
             None \<Rightarrow> now st
           | Some d \<Rightarrow> (d, st))"

text \<open>
  Modelled from the spec: the cache module (\<open>get_cached\<close>, \<open>put_cached\<close>) is not among the
  sources. The spec describes a keyed store of the last payload per ticker, valid until
  overwritten.
\<close>

definition get_cached :: "pystr \<Rightarrow> state \<Rightarrow> payload option \<times> state" where
  "get_cached ticker st = (CACHE st ticker, st\<lparr>calls := calls st @ [GetCached ticker]\<rparr>)"

definition put_cached :: "pystr \<Rightarrow> payload \<Rightarrow> state \<Rightarrow> unit \<times> state" where
  "put_cached ticker p st =
     ((), st\<lparr>CACHE := (CACHE st)(ticker \<mapsto> p), calls := calls st @ [PutCached ticker]\<rparr>)"

subsection \<open>The quote ring\<close>

text \<open>\<open>append\<close> on a \<open>deque(maxlen=m)\<close>: a full deque drops from the left.\<close>

definition deque_append :: "nat \<Rightarrow> 'a list \<Rightarrow> 'a \<Rightarrow> 'a list" where
  "deque_append m xs x = drop (length xs + 1 - m) (xs @ [x])"

definition note_quote :: "pystr \<Rightarrow> real \<Rightarrow> state \<Rightarrow> state" where
  "note_quote ticker last_price st =
     (let ring = (case QUOTE_RING st ticker of None \<Rightarrow> [] | Some r \<Rightarrow> r);
          (t1, st1) = now st;
          ring1 = deque_append 600 ring (t1, last_price);
          (t2, st2) = now st1;
          cut = t2 - 10 * minute;
          ring2 = dropWhile (\<lambda>(t, px). t < cut) ring1
      in st2\<lparr>QUOTE_RING := (QUOTE_RING st2)(ticker \<mapsto> ring2)\<rparr>)"

text \<open>The loop of \<open>_ret_from_ring\<close>, over the reversed ring; \<open>base\<close> starts as \<open>None\<close>.\<close>

fun scan_base :: "(int \<times> real) list \<Rightarrow> int \<Rightarrow> real option \<Rightarrow> real option" where
  "scan_base [] cutoff base = base"
| "scan_base ((t, px) # rest) cutoff base =
     (if t \<le> cutoff then Some px else scan_base rest cutoff (Some px))"

definition ret_from_ring :: "pystr \<Rightarrow> int \<Rightarrow> state \<Rightarrow> real \<times> state" where
  "ret_from_ring ticker minutes st =
     (case QUOTE_RING st ticker of
        None \<Rightarrow> (0, st)
      | Some ring \<Rightarrow>
          if ring = [] then (0, st)
          else
            (let (t, st1) = now st;
                 cutoff = t - minutes * minute
             in case scan_base (rev ring) cutoff None of
                  None \<Rightarrow> (0, st1)
                | Some base \<Rightarrow>
                    if base = 0 then (0, st1)
                    else ((snd (last ring) - base) / base, st1)))"

subsection \<open>Synthetic features, sentiment, reference merge\<close>

definition synthetic_feats :: "env \<Rightarrow> exn + features" where
  "synthetic_feats env =
     (let closes = [100,101,102,103,103,104,105,104,103,102,103,104,103,102,101,100,99,99,100,101,102];
          highs = [101,102,103,104,104,105,106,105,104,103,104,105,104,103,102,101,100,100,101,102,103];
          lows = [99,100,101,102,102,103,104,103,102,101,102,103,102,101,100,99,98,98,99,100,101]
      in case atr_normalized env highs lows closes 20 of
           Inl e \<Rightarrow> Inl e
         | Inr rv \<Rightarrow>
             (case ret_pct env closes 1 of
                Inl e \<Rightarrow> Inl e
              | Inr r1 \<Rightarrow>
                  (case ret_pct env closes 5 of
                     Inl e \<Rightarrow> Inl e
                   | Inr r5 \<Rightarrow>
                       (case above_sma20_of env closes of
                          Inl e \<Rightarrow> Inl e
                        | Inr abv \<Rightarrow>
                            Inr \<lparr>sent_mean = 0, sent_std = 0.05, r_1m = r1, r_5m = r5,
                                 above_sma20 = abv, mins_since_news = 12,
                                 rv20 = min (max rv 0.02) 0.80,
                                 earnings_soon = False, liquidity_flag = True\<rparr>))))"

definition build_features_stub :: "env \<Rightarrow> exn + features" where
  "build_features_stub env = synthetic_feats env"

text \<open>\<open>h.get(key) or ""\<close> on a headline.\<close>

definition get_or_empty :: "dict \<Rightarrow> string \<Rightarrow> pystr" where
  "get_or_empty h key = (case h (str key) of None \<Rightarrow> [] | Some v \<Rightarrow> v)"

definition sent_from_headlines :: "env \<Rightarrow> dict list \<Rightarrow> state \<Rightarrow> (real \<times> real) \<times> state" where
  "sent_from_headlines env headlines st =
     (let titles = map (\<lambda>h. strip (get_or_empty h ''title''))
                     (filter (\<lambda>h. get_or_empty h ''title'' \<noteq> []) headlines);
          titles' = filter (\<lambda>t. t \<noteq> []) titles
      in if titles' = [] then ((0, 0.05), st)
         else case provider PostSentiment (post_sentiment env (take 8 titles')) st of
                (Inr d, st') \<Rightarrow> (d, st')
              | (Inl e, st') \<Rightarrow> ((0, 0.05), st'))"

text \<open>
  The inner loop of \<open>_merge_refs\<close> over one headline list; it stops (\<open>break\<close>) as soon as
  \<open>out\<close> holds 3 references.
\<close>

fun merge_loop :: "dict list \<Rightarrow> pystr set \<Rightarrow> dict list \<Rightarrow> pystr set \<times> dict list" where
  "merge_loop [] seen out = (seen, out)"
| "merge_loop (h # rest) seen out =
     (let t = strip (get_or_empty h ''title'');
          u = strip (get_or_empty h ''url'');
          pub = strip (get_or_empty h ''publisher'')
      in if t = [] \<or> u = [] then merge_loop rest seen out
         else if u \<in> seen then merge_loop rest seen out
         else
           (let seen' = insert u seen;
                out' = out @ [[str ''title'' \<mapsto> t,
                               str ''publisher'' \<mapsto> (if pub = [] then str ''News'' else pub),
                               str ''url'' \<mapsto> u]]
            in if length out' \<ge> 3 then (seen', out') else merge_loop rest seen' out'))"

definition merge_refs :: "pystr \<Rightarrow> dict list \<Rightarrow> dict list \<Rightarrow> dict list" where
  "merge_refs ticker fn yh =
     (let (seen1, out1) = merge_loop fn {} []
      in if length out1 \<ge> 3 then out1 else snd (merge_loop yh seen1 out1))"

text \<open>\<open>while len(refs) < 3: refs.append(None)\<close>.\<close>

definition pad_refs :: "dict list \<Rightarrow> dict option list" where
  "pad_refs rs = map Some rs @ replicate (3 - length rs) None"

subsection \<open>The phases of \<open>build_features_for\<close>\<close>

definition is_live :: "env \<Rightarrow> bool" where
  "is_live env \<longleftrightarrow> LIVE_PROVIDERS env = Some (str ''1'')"

text \<open>
  Headlines: Finnhub, then Yahoo. An \<open>FHError\<close> of the first and any exception of the
  second become the diagnostic; another exception of the first leaves the \<open>try\<close>.
  The result is \<open>(fh, yh, error)\<close>.
\<close>

definition fetch_news :: "env \<Rightarrow> pystr \<Rightarrow> (dict list \<times> dict list \<times> pystr option) action" where
  "fetch_news env ticker st =
     (case provider (FetchHeadlines ticker) (fetch_headlines env ticker 5) st of
        (r1, st1) \<Rightarrow>
          (case (case r1 of
                   Inr l \<Rightarrow> Inr (l, None)
                 | Inl (FHError m) \<Rightarrow> Inr ([], Some (str ''news: '' @ m))
                 | Inl e \<Rightarrow> Inl e) of
             Inl e \<Rightarrow> (Inl e, st1)
           | Inr (fh, err) \<Rightarrow>
               (case provider (FetchHeadlinesYahoo ticker) (fetch_headlines_yahoo env ticker 5) st1 of
                  (Inr yh, st2) \<Rightarrow> (Inr (fh, yh, err), st2)
                | (Inl e, st2) \<Rightarrow>
                    (Inr (fh, [],
                       Some (case err of
                               None \<Rightarrow> str ''yahoo: '' @ exn_str e
                             | Some m \<Rightarrow>
                                 if m = [] then str ''yahoo: '' @ exn_str e
                                 else m @ str ''; yahoo: '' @ exn_str e)), st2))))"

text \<open>\<open>float(q.get(key) or 0.0)\<close> and \<open>x or None\<close>.\<close>

definition price_or_zero :: "real option \<Rightarrow> real" where
  "price_or_zero v = (case v of None \<Rightarrow> 0 | Some x \<Rightarrow> x)"

definition or_None :: "real \<Rightarrow> real option" where
  "or_None x = (if x = 0 then None else Some x)"

text \<open>The Finnhub fallback for a missing last price; its exceptions are swallowed.\<close>

definition finnhub_last :: "env \<Rightarrow> pystr \<Rightarrow> real \<Rightarrow> state \<Rightarrow> real \<times> state" where
  "finnhub_last env ticker last_price st =
     (if last_price \<le> 0 then
        (case provider (FetchQuoteFinnhub ticker) (fetch_quote_finnhub env ticker) st of
           (Inr qfh, st') \<Rightarrow>
             ((case q_last qfh of
                 None \<Rightarrow> last_price
               | Some v \<Rightarrow> if v = 0 then last_price else v), st')
         | (Inl e, st') \<Rightarrow> (last_price, st'))
      else (last_price, st))"

text \<open>
  The estimate of a missing or crossed bid/ask: 8 basis points around the last price.
  The result is \<open>(bid_disp, ask_disp, quality)\<close>.
\<close>

definition estimate_spread :: "real \<Rightarrow> real option \<Rightarrow> real option \<Rightarrow> pystr
    \<Rightarrow> real \<times> real \<times> pystr" where
  "estimate_spread last_price bid_disp ask_disp qual =
     (let half = (8 / 10 ^ 4) * last_price * 0.5;
          est = (last_price - half, last_price + half, str ''estimated'')
      in case bid_disp of
           None \<Rightarrow> est
         | Some b \<Rightarrow>
             (case ask_disp of
                None \<Rightarrow> est
              | Some a \<Rightarrow> if a \<le> b then est else (b, a, qual)))"

text \<open>
  The last price from Tiingo: the quote's \<open>last\<close>, or the close of the last candle when
  that is zero or missing. Then the quality before any estimate.
\<close>

definition tiingo_last :: "raw_quote \<Rightarrow> candle list \<Rightarrow> real" where
  "tiingo_last quote_ti candles =
     (let last0 = price_or_zero (q_last quote_ti)
      in if last0 = 0 \<and> candles \<noteq> [] then close (last candles) else last0)"

definition observed_quality :: "real option \<Rightarrow> real option \<Rightarrow> real \<Rightarrow> pystr" where
  "observed_quality bid_disp ask_disp last_price =
     (if bid_disp \<noteq> None \<and> ask_disp \<noteq> None \<and> last_price > 0
      then str ''real'' else str ''unknown'')"

text \<open>
  Quotes and candles. The result is \<open>(last_px, bid_disp, ask_disp, quality, candles)\<close>.
\<close>

definition fetch_prices :: "env \<Rightarrow> pystr \<Rightarrow> (real \<times> real \<times> real \<times> pystr \<times> candle list) action" where
  "fetch_prices env ticker =
     and_then (provider (FetchQuoteTiingo ticker) (fetch_quote_tiingo env ticker)) (\<lambda>quote_ti.
     and_then (provider (FetchCandlesTiingo ticker)
                 (fetch_candles_tiingo env ticker 120 (str ''1min''))) (\<lambda>candles.
       let last1 = tiingo_last quote_ti candles;
           bid_disp = or_None (price_or_zero (q_bid quote_ti));
           ask_disp = or_None (price_or_zero (q_ask quote_ti));
           qual = observed_quality bid_disp ask_disp last1
       in and_then (lift (finnhub_last env ticker last1)) (\<lambda>last2.
            let last3 = (if last2 \<le> 0 then 1 else last2)
            in and_then (lift (\<lambda>st. ((), note_quote ticker last3 st))) (\<lambda>_.
                 let (b, a, q) = estimate_spread last3 bid_disp ask_disp qual
                 in done_with (last3, b, a, q, candles)))))"

text \<open>Minutes since the latest news, capped at 240.\<close>

fun parse_all :: "env \<Rightarrow> pystr list \<Rightarrow> state \<Rightarrow> int list \<times> state" where
  "parse_all env [] st = ([], st)"
| "parse_all env (s # rest) st =
     (case parse_iso_aware env s st of
        (d, st1) \<Rightarrow> (case parse_all env rest st1 of (ds, st2) \<Rightarrow> (d # ds, st2)))"

definition mins_since_news_of :: "env \<Rightarrow> dict list \<Rightarrow> dict list \<Rightarrow> state \<Rightarrow> int \<times> state" where
  "mins_since_news_of env fh yh st =
     (let pool = filter (\<lambda>p. get_or_empty p ''ts'' \<noteq> []) (fh @ yh)
      in if (fh \<noteq> [] \<or> yh \<noteq> []) \<and> pool \<noteq> [] then
           (case parse_all env (map (\<lambda>p. get_or_empty p ''ts'') pool) st of
              (ds, st1) \<Rightarrow>
                (case now st1 of
                   (t, st2) \<Rightarrow> (min ((t - fold max (tl ds) (hd ds)) div minute) 240, st2)))
         else (min 9999 240, st))"

text \<open>\<open>xs[-n:]\<close> for a positive \<open>n\<close>, and \<open>int(x)\<close> on a float.\<close>

definition lastn :: "nat \<Rightarrow> 'a list \<Rightarrow> 'a list" where
  "lastn n xs = drop (length xs - n) xs"

definition py_int :: "real \<Rightarrow> int" where
  "py_int x = (if 0 \<le> x then \<lfloor>x\<rfloor> else \<lceil>x\<rceil>)"

text \<open>Returns and volatility. The result is \<open>(r_1m, r_5m, rv20, above)\<close>, \<open>rv20\<close> not yet clamped.\<close>

definition returns_and_rv :: "env \<Rightarrow> pystr \<Rightarrow> candle list \<Rightarrow> real
    \<Rightarrow> (real \<times> real \<times> real \<times> bool) action" where
  "returns_and_rv env ticker candles last_price =
     (if candles \<noteq> [] \<and> length candles \<ge> 2 then
        (let closes = map close candles;
             highs = map high candles;
             lows = map low candles
         in and_then (if length closes \<ge> 2 then pure_result (ret_pct env closes 1)
                      else lift (ret_from_ring ticker 1)) (\<lambda>r1.
            and_then (if length closes \<ge> 6 then pure_result (ret_pct env closes 5)
                      else lift (ret_from_ring ticker 5)) (\<lambda>r5.
              let series0 = (if closes \<noteq> [] then lastn 120 closes else []);
                  pad_val = (if series0 \<noteq> [] then last series0 else last_price);
                  series = (if length series0 < 21
                            then series0 @ replicate (21 - length series0) pad_val
                            else series0);
                  hseg = lastn (length series) (if highs = [] then [pad_val] else highs);
                  lseg = lastn (length series) (if lows = [] then [pad_val] else lows)
              in and_then (pure_result (atr_normalized env hseg lseg series 20)) (\<lambda>rv.
                   done_with (r1, r5, rv, last series > sum_list (lastn 20 series) / 20)))))
      else
        and_then (lift (ret_from_ring ticker 1)) (\<lambda>r1.
        and_then (lift (ret_from_ring ticker 5)) (\<lambda>r5.
        and_then (pure_result (atr_normalized env (replicate 21 last_price)
                    (replicate 21 last_price) (replicate 21 last_price) 20)) (\<lambda>rv.
          done_with (r1, r5, rv, False)))))"

text \<open>Earnings within 14 days; an \<open>FHError\<close> is swallowed, another exception is not.\<close>

definition day :: int where
  "day = 86400000000"

definition earnings_soon_of :: "env \<Rightarrow> pystr \<Rightarrow> bool action" where
  "earnings_soon_of env ticker st =
     (case provider (FetchEarningsFinnhub ticker) (fetch_earnings_finnhub env ticker) st of
        (Inl (FHError m), st1) \<Rightarrow> (Inr False, st1)
      | (Inl e, st1) \<Rightarrow> (Inl e, st1)
      | (Inr None, st1) \<Rightarrow> (Inr False, st1)
      | (Inr (Some earn_iso), st1) \<Rightarrow>
          if earn_iso = [] then (Inr False, st1)
          else
            (case parse_iso_aware env earn_iso st1 of
               (ed, st2) \<Rightarrow>
                 (case now st2 of
                    (today, st3) \<Rightarrow>
                      (Inr (0 \<le> ed div day - today div day \<and> ed div day - today div day \<le> 14),
                       st3))))"

definition liquidity_flag_of :: "real \<Rightarrow> real \<Rightarrow> real \<Rightarrow> candle list \<Rightarrow> bool" where
  "liquidity_flag_of last_price bid_disp ask_disp candles =
     (let spread_bps = (if last_price \<noteq> 0 then \<bar>ask_disp - bid_disp\<bar> / last_price * 10 ^ 4 else 9999);
          vol_1m = (if candles \<noteq> [] then py_int (volume (last candles)) else 0);
          vol_5m = sum_list (map (\<lambda>c. py_int (volume c)) (if candles \<noteq> [] then lastn 5 candles else []))
      in spread_bps \<le> 30 \<or> vol_1m \<ge> 1000 \<or> vol_5m \<ge> 5000)"

subsection \<open>\<open>build_features_for\<close>\<close>

text \<open>
  The body of the outer \<open>try\<close>. When it raises, the handler's payload still carries the
  \<open>top_headline\<close> chosen so far, so the exception is returned with it.
\<close>

definition aggregate :: "env \<Rightarrow> pystr \<Rightarrow> state \<Rightarrow> (exn \<times> dict option + payload) \<times> state" where
  "aggregate env ticker st =
     (case fetch_news env ticker st of
        (Inl e, st1) \<Rightarrow> (Inl (e, None), st1)
      | (Inr (fh, yh, err), st1) \<Rightarrow>
          (let top_h = (if fh \<noteq> [] then Some (hd fh) else if yh \<noteq> [] then Some (hd yh) else None);
               rs = merge_refs ticker fh yh;
               sources = map (\<lambda>r. get_or_empty r ''publisher'') rs;
               primary = filter (\<lambda>r. r \<noteq> Map.empty) (take 3 fh);
               secondary = filter (\<lambda>r. r \<noteq> Map.empty) (take 3 yh)
           in case sent_from_headlines env (if primary \<noteq> [] then primary else secondary) st1 of
                ((sm, ss), st2) \<Rightarrow>
                  (case
                     and_then (fetch_prices env ticker) (\<lambda>(last_price, b, a, q, candles).
                     and_then (lift (mins_since_news_of env fh yh)) (\<lambda>mins.
                     and_then (returns_and_rv env ticker candles last_price) (\<lambda>(r1, r5, rv, abv).
                     and_then (earnings_soon_of env ticker) (\<lambda>soon.
                     and_then (lift iso_now) (\<lambda>stamp.
                       let p = \<lparr>features =
                                  \<lparr>sent_mean = sm, sent_std = ss, r_1m = r1, r_5m = r5,
                                   above_sma20 = abv, mins_since_news = mins,
                                   rv20 = min (max rv 0.02) 0.80,
                                   earnings_soon = soon,
                                   liquidity_flag = liquidity_flag_of last_price b a candles\<rparr>,
                                top_headline = top_h,
                                refs = pad_refs rs,
                                refs_sources = sources,
                                error = err,
                                quote = \<lparr>last_px = last_price, bid = Some b, ask = Some a,
                                         quality = q\<rparr>,
                                ts = stamp\<rparr>
                       in and_then (lift (put_cached ticker p)) (\<lambda>_. done_with p)))))) st2
                   of
                     (Inl e, st3) \<Rightarrow> (Inl (e, top_h), st3)
                   | (Inr p, st3) \<Rightarrow> (Inr p, st3))))"

text \<open>The payload of the non-live mode and of a total failure.\<close>

definition synthetic_payload :: "features \<Rightarrow> dict option \<Rightarrow> pystr option \<Rightarrow> int \<Rightarrow> payload" where
  "synthetic_payload feats top_h err stamp =
     \<lparr>features = feats, top_headline = top_h, refs = [], refs_sources = [], error = err,
      quote = \<lparr>last_px = 0, bid = None, ask = None, quality = str ''unknown''\<rparr>,
      ts = stamp\<rparr>"

definition build_features_for :: "env \<Rightarrow> pystr \<Rightarrow> payload action" where
  "build_features_for env ticker st =
     (if is_live env then
        (case get_cached ticker st of
           (Some cached, st1) \<Rightarrow> (Inr cached, st1)
         | (None, st1) \<Rightarrow>
             (case aggregate env ticker st1 of
                (Inr p, st2) \<Rightarrow> (Inr p, st2)
              | (Inl (e, top_h), st2) \<Rightarrow>
                  (let err = (case e of
                                TiError m \<Rightarrow> str ''tiingo: '' @ m
                              | _ \<Rightarrow> str ''providers failed: '' @ exn_repr e)
                   in case synthetic_feats env of
                        Inl e' \<Rightarrow> (Inl e', st2)
                      | Inr feats \<Rightarrow>
                          (case iso_now st2 of
                             (stamp, st3) \<Rightarrow>
                               (let p = synthetic_payload feats top_h (Some err) stamp
                                in case put_cached ticker p st3 of
                                     (u, st4) \<Rightarrow> (Inr p, st4))))))
      else
        (case synthetic_feats env of
           Inl e \<Rightarrow> (Inl e, st)
         | Inr feats \<Rightarrow>
             (case iso_now st of
                (stamp, st1) \<Rightarrow> (Inr (synthetic_payload feats None None stamp), st1))))"

section \<open>Gateway service: bounded retries (gateway_api/app.py)\<close>

text \<open>
  The requests sent and the delays slept. The callee is a function from the number of the
  attempt within one call (from 0) to its outcome: the decoded body, or the exception of
  the request, of \<open>raise_for_status\<close> or of \<open>r.json()\<close>.
\<close>

record net =
  attempts :: nat
  sleeps :: "pyfloat list"

text \<open>
  \<open>time.sleep(secs)\<close>: the exception it raises, if any. It raises \<open>ValueError\<close> on NaN,
  \<open>OverflowError\<close> when the length in nanoseconds, rounded away from zero, does not fit 64
  bits, and \<open>ValueError\<close> on a negative length. The product is taken in the reals.
\<close>

definition time_sleep :: "pyfloat \<Rightarrow> exn option" where
  "time_sleep secs =
     (case secs of
        NaN \<Rightarrow> Some (ValueError (str ''Invalid value NaN (not a number)''))
      | PosInf \<Rightarrow> Some (OverflowError (str ''timestamp too large to convert to C _PyTime_t''))
      | NegInf \<Rightarrow> Some (OverflowError (str ''timestamp too large to convert to C _PyTime_t''))
      | Finite r \<Rightarrow>
          if 2 ^ 63 \<le> \<lceil>r * 10 ^ 9\<rceil> \<or> \<lfloor>r * 10 ^ 9\<rfloor> < - (2 ^ 63)
          then Some (OverflowError (str ''timestamp too large to convert to C _PyTime_t''))
          else if r < 0 then Some (ValueError (str ''sleep length must be non-negative''))
          else None)"

text \<open>
  How the \<open>for\<close> loop of \<open>_get_json\<close> and \<open>_post_json\<close> ends: the body is returned; the
  iterations are used up, with \<open>last_exc\<close>; or \<open>time.sleep\<close> raises inside the handler and
  its exception leaves the function.
\<close>

datatype 'r loop_end = Returned 'r | Exhausted "exn option" | Escaped exn

text \<open>The loop: \<open>k\<close> iterations are left, \<open>i\<close> have been made.\<close>

fun retry_loop :: "nat \<Rightarrow> nat \<Rightarrow> pyfloat \<Rightarrow> (nat \<Rightarrow> exn + 'r) \<Rightarrow> exn option \<Rightarrow> net
    \<Rightarrow> 'r loop_end \<times> net" where
  "retry_loop 0 i delay callee last_exc st = (Exhausted last_exc, st)"
| "retry_loop (Suc k) i delay callee last_exc st =
     (case callee i of
        Inr body \<Rightarrow> (Returned body, st\<lparr>attempts := attempts st + 1\<rparr>)
      | Inl e \<Rightarrow>
          (case time_sleep delay of
             Some e' \<Rightarrow> (Escaped e', st\<lparr>attempts := attempts st + 1\<rparr>)
           | None \<Rightarrow>
               retry_loop k (i + 1) delay callee (Some e)
                 (st\<lparr>attempts := attempts st + 1, sleeps := sleeps st @ [delay]\<rparr>)))"

text \<open>\<open>str(last_exc)\<close> in the detail of the 502.\<close>

definition str_exc :: "exn option \<Rightarrow> pystr" where
  "str_exc e = (case e of None \<Rightarrow> str ''None'' | Some x \<Rightarrow> exn_str x)"

text \<open>
  \<open>RETRIES\<close> and \<open>DELAY\<close> are read from the environment when the module is loaded; they
  are parameters here. \<open>range(RETRIES + 1)\<close> is empty when \<open>RETRIES\<close> is negative.
\<close>

definition get_json :: "int \<Rightarrow> pyfloat \<Rightarrow> (nat \<Rightarrow> exn + 'r) \<Rightarrow> pystr \<Rightarrow> net \<Rightarrow> (exn + 'r) \<times> net" where
  "get_json RETRIES DELAY callee url' st =
     (case retry_loop (nat (RETRIES + 1)) 0 DELAY callee None st of
        (Returned body, st') \<Rightarrow> (Inr body, st')
      | (Exhausted last_exc, st') \<Rightarrow>
          (Inl (HTTPException 502 (str ''GET '' @ url' @ str '' failed: '' @ str_exc last_exc)), st')
      | (Escaped e, st') \<Rightarrow> (Inl e, st'))"

definition post_json :: "int \<Rightarrow> pyfloat \<Rightarrow> (nat \<Rightarrow> exn + 'r) \<Rightarrow> pystr \<Rightarrow> net \<Rightarrow> (exn + 'r) \<times> net" where
  "post_json RETRIES DELAY callee url' st =
     (case retry_loop (nat (RETRIES + 1)) 0 DELAY callee None st of
        (Returned body, st') \<Rightarrow> (Inr body, st')
      | (Exhausted last_exc, st') \<Rightarrow>
          (Inl (HTTPException 502 (str ''POST '' @ url' @ str '' failed: '' @ str_exc last_exc)), st')
      | (Escaped e, st') \<Rightarrow> (Inl e, st'))"

section \<open>Reference definitions and scenarios\<close>

text \<open>
  What the specification says of the one-liner, in its own words: the URLs of the slots
  that have a non-empty URL, in order; the marker \<open>[n]\<close>; the composed text before it is
  clamped to 180 characters.
\<close>

definition present_urls :: "dict option list \<Rightarrow> pystr list" where
  "present_urls l =
     concat (map (\<lambda>slot. case slot of
                             None \<Rightarrow> []
                           | Some d \<Rightarrow>
                               (case d (str ''url'') of
                                  None \<Rightarrow> []
                                | Some u \<Rightarrow> if u = [] then [] else [u])) l)"

definition marker :: "nat \<Rightarrow> pystr" where
  "marker n = str ''['' @ str_of_nat n @ str '']''"

definition one_liner_full :: "OneLinerIn \<Rightarrow> pystr" where
  "one_liner_full x =
     strategy_phrase (class_label x) @ str ''. Source: ''
       @ (if publisher x = [] then str ''News'' else publisher x)
       @ str '' '' @ dash_marker @ fst (build_index_suffix (req_refs x))"

text \<open>The scenario of the specification, and a request whose publisher is 200 spaces.\<close>

definition scenario :: OneLinerIn where
  "scenario =
     \<lparr>class_label = str ''IRON_CONDOR'', confidence = Finite 0.73, title = [],
      publisher = str ''Reuters'', url = [],
      req_refs = Some [Some [str ''url'' \<mapsto> str ''https://a''], None,
                       Some [str ''url'' \<mapsto> str ''https://b'']]\<rparr>"

definition padded :: OneLinerIn where
  "padded =
     \<lparr>class_label = [], confidence = Finite 0, title = [], publisher = replicate 200 32,
      url = [], req_refs = None\<rparr>"

text \<open>
  What the specification says of \<open>trailingReturn\<close>, in its own words: scanning from the
  most recent sample backward, the baseline is the first sample whose timestamp is at
  most the cutoff, or the oldest sample if none qualifies; the result is
  \<open>(last - base) / base\<close>, or 0 for an empty ring or a zero baseline.
\<close>

definition trailing_return :: "(int \<times> real) list \<Rightarrow> int \<Rightarrow> real" where
  "trailing_return ring cutoff =
     (if ring = [] then 0
      else
        (let base = (case find (\<lambda>(t, px). t \<le> cutoff) (rev ring) of
                       Some (t, px) \<Rightarrow> px
                     | None \<Rightarrow> snd (hd ring))
         in if base = 0 then 0 else (snd (last ring) - base) / base))"

text \<open>The ring of a ticker, empty when the ticker has none yet.\<close>

definition ring_of :: "state \<Rightarrow> pystr \<Rightarrow> (int \<times> real) list" where
  "ring_of st ticker = (case QUOTE_RING st ticker of None \<Rightarrow> [] | Some r \<Rightarrow> r)"

text \<open>
  The states the process can get to from a state \<open>s\<close>, as far as the quote ring goes: the
  clock is read, a quote is noted, or the cache and the call log change.
\<close>

inductive reaches :: "state \<Rightarrow> state \<Rightarrow> bool" where
  here: "reaches s s"
| clock_read: "reaches s st \<Longrightarrow> reaches s (snd (now st))"
| noted: "reaches s st \<Longrightarrow> reaches s (note_quote ticker p st)"
| elsewhere: "reaches s st \<Longrightarrow> reaches s (st\<lparr>CACHE := c, calls := cs\<rparr>)"

text \<open>The clock never runs backwards at the coming reads.\<close>

definition steady :: "state \<Rightarrow> bool" where
  "steady st \<longleftrightarrow> (\<forall>d \<in> set (ticks st). 0 \<le> d)"

text \<open>
  Two invariants of the rings: none has more than 600 entries; each is ordered by time
  and holds no sample stamped after the last clock reading.
\<close>

definition size_ok :: "state \<Rightarrow> bool" where
  "size_ok st \<longleftrightarrow> (\<forall>t r. QUOTE_RING st t = Some r \<longrightarrow> length r \<le> 600)"

definition ring_ok :: "state \<Rightarrow> bool" where
  "ring_ok st \<longleftrightarrow>
     (\<forall>t r. QUOTE_RING st t = Some r \<longrightarrow>
        sorted (map fst r) \<and> (\<forall>x \<in> set r. fst x \<le> clock st))"

text \<open>
  A start state whose clock advances by 1 s, 0, 15 min and 0 at the next four reads; a
  start state whose clock reads 20 min twice, is set back to 5 min, and then reads 29 min;
  a callee that fails twice and then answers.
\<close>

definition st0 :: state where
  "st0 = \<lparr>QUOTE_RING = Map.empty, CACHE = Map.empty, clock = 0,
          ticks = [1000000, 0, 15 * 60000000, 0], calls = []\<rparr>"

definition set_back :: state where
  "set_back = \<lparr>QUOTE_RING = Map.empty, CACHE = Map.empty, clock = 0,
               ticks = [20 * 60000000, 0, - (15 * 60000000), 0, 24 * 60000000, 0],
               calls = []\<rparr>"

definition flaky :: "nat \<Rightarrow> exn + nat" where
  "flaky j = (if j < 2 then Inl (OtherError (str ''ConnectError'') (str ''down'')) else Inr 7)"

text \<open>
  What a headline provider delivered to the aggregator (nothing when it raised), and the
  distinct URLs, trimmed, of the headlines that have both a title and a URL.
\<close>

definition headlines_of :: "exn + dict list \<Rightarrow> dict list" where
  "headlines_of r = (case r of Inl e \<Rightarrow> [] | Inr l \<Rightarrow> l)"

definition found_urls :: "dict list \<Rightarrow> pystr set" where
  "found_urls hs =
     (\<lambda>h. strip (get_or_empty h ''url'')) `
       {h \<in> set hs. strip (get_or_empty h ''title'') \<noteq> [] \<and> strip (get_or_empty h ''url'') \<noteq> []}"

text \<open>
  The headlines that reach the merge, Finnhub's first. The bid and ask of a Tiingo quote
  as the aggregator reads them (\<open>float(q.get(key) or 0.0) or None\<close>), and the condition
  under which it replaces them by an estimate.
\<close>

definition news :: "env \<Rightarrow> pystr \<Rightarrow> dict list" where
  "news env ticker =
     headlines_of (fetch_headlines env ticker 5) @ headlines_of (fetch_headlines_yahoo env ticker 5)"

definition quoted_bid :: "raw_quote \<Rightarrow> real option" where
  "quoted_bid qt = or_None (price_or_zero (q_bid qt))"

definition quoted_ask :: "raw_quote \<Rightarrow> real option" where
  "quoted_ask qt = or_None (price_or_zero (q_ask qt))"

definition needs_estimate :: "real option \<Rightarrow> real option \<Rightarrow> bool" where
  "needs_estimate bid_disp ask_disp \<longleftrightarrow>
     (case bid_disp of
        None \<Rightarrow> True
      | Some b \<Rightarrow> (case ask_disp of None \<Rightarrow> True | Some a \<Rightarrow> a \<le> b))"

text \<open>
  A live environment: one Finnhub headline stamped 10 minutes after the clock, no Yahoo
  headline, a Tiingo quote with bid 99 and ask 101 but no last price, no candles, a
  Finnhub quote with last 100, no earnings date. The same environment with live providers
  off. A state with an empty ring and cache whose clock stays at 0.
\<close>

definition live_env :: env where
  "live_env =
     \<lparr>LIVE_PROVIDERS = Some (str ''1''),
      fetch_headlines = (\<lambda>t n. Inr [[str ''title'' \<mapsto> str ''Fed holds'',
                                      str ''url'' \<mapsto> str ''https://a'',
                                      str ''publisher'' \<mapsto> str ''Reuters'',
                                      str ''ts'' \<mapsto> str ''1970-01-01T00:10:00Z'']]),
      fetch_headlines_yahoo = (\<lambda>t n. Inr []),
      post_sentiment = (\<lambda>texts. Inr (0.1, 0.2)),
      fetch_quote_tiingo = (\<lambda>t. Inr \<lparr>q_last = None, q_bid = Some 99, q_ask = Some 101\<rparr>),
      fetch_candles_tiingo = (\<lambda>t n f. Inr []),
      fetch_quote_finnhub = (\<lambda>t. Inr \<lparr>q_last = Some 100, q_bid = None, q_ask = None\<rparr>),
      fetch_earnings_finnhub = (\<lambda>t. Inr None),
      atr_normalized = (\<lambda>h l c n. Inr 0.01),
      ret_pct = (\<lambda>c n. Inr 0),
      above_sma20_of = (\<lambda>c. Inr False),
      fromisoformat = (\<lambda>s. Some 600000000)\<rparr>"

definition demo_env :: env where
  "demo_env = live_env\<lparr>LIVE_PROVIDERS := None\<rparr>"

definition fresh :: state where
  "fresh = \<lparr>QUOTE_RING = Map.empty, CACHE = Map.empty, clock = 0, ticks = [], calls = []\<rparr>"

text \<open>
  The headline of the live environment and the payload aggregated there from the fresh
  state. A second live environment, whose headline has no timestamp and whose Tiingo
  quote has a last price of 100 but neither bid nor ask, and the payload aggregated there.
\<close>

definition live_headline :: dict where
  "live_headline = [str ''title'' \<mapsto> str ''Fed holds'', str ''url'' \<mapsto> str ''https://a'',
                    str ''publisher'' \<mapsto> str ''Reuters'',
                    str ''ts'' \<mapsto> str ''1970-01-01T00:10:00Z'']"

definition live_payload :: payload where
  "live_payload =
     \<lparr>features =
        \<lparr>sent_mean = 0.1, sent_std = 0.2, r_1m = 0, r_5m = 0, above_sma20 = False,
         mins_since_news = - 10, rv20 = 0.02, earnings_soon = False, liquidity_flag = False\<rparr>,
      top_headline = Some live_headline,
      refs = [Some [str ''title'' \<mapsto> str ''Fed holds'', str ''publisher'' \<mapsto> str ''Reuters'',
                    str ''url'' \<mapsto> str ''https://a''], None, None],
      refs_sources = [str ''Reuters''],
      error = None,
      quote = \<lparr>last_px = 100, bid = Some 99, ask = Some 101, quality = str ''unknown''\<rparr>,
      ts = 0\<rparr>"

definition quiet_headline :: dict where
  "quiet_headline = [str ''title'' \<mapsto> str ''Fed holds'', str ''url'' \<mapsto> str ''https://a'',
                     str ''publisher'' \<mapsto> str ''Reuters'']"

definition quiet_env :: env where
  "quiet_env =
     live_env\<lparr>fetch_headlines := (\<lambda>t n. Inr [quiet_headline]),
              fetch_quote_tiingo := (\<lambda>t. Inr \<lparr>q_last = Some 100, q_bid = None, q_ask = None\<rparr>)\<rparr>"

definition quiet_payload :: payload where
  "quiet_payload =
     \<lparr>features =
        \<lparr>sent_mean = 0.1, sent_std = 0.2, r_1m = 0, r_5m = 0, above_sma20 = False,
         mins_since_news = 240, rv20 = 0.02, earnings_soon = False, liquidity_flag = True\<rparr>,
      top_headline = Some quiet_headline,
      refs = [Some [str ''title'' \<mapsto> str ''Fed holds'', str ''publisher'' \<mapsto> str ''Reuters'',
                    str ''url'' \<mapsto> str ''https://a''], None, None],
      refs_sources = [str ''Reuters''],
      error = None,
      quote = \<lparr>last_px = 100, bid = Some 99.96, ask = Some 100.04, quality = str ''estimated''\<rparr>,
      ts = 0\<rparr>"

section \<open>Properties of the one-liner builder\<close>

lemma strip_id: "s \<noteq> [] \<Longrightarrow> \<not> isspace (hd s) \<Longrightarrow> \<not> isspace (last s) \<Longrightarrow> strip s = s"
proof -
  assume a: "s \<noteq> []" "\<not> isspace (hd s)" "\<not> isspace (last s)"
  then have 1: "dropWhile isspace s = s" by (cases s) auto
  from a have "rev s \<noteq> []" "\<not> isspace (hd (rev s))" by (auto simp: hd_rev)
  then have 2: "dropWhile isspace (rev s) = rev s" by (cases "rev s") auto
  show ?thesis by (simp add: strip_def 1 2)
qed

lemma phrase_head: "strategy_phrase c \<noteq> [] \<and> \<not> isspace (hd (strategy_phrase c))"
  by (simp add: strategy_phrase_def str_def isspace_def)

lemma base_strip:
  "strip (strategy_phrase c @ str ''. Source: '' @ p @ str '' '' @ dash_marker)
     = strategy_phrase c @ str ''. Source: '' @ p @ str '' '' @ dash_marker"
proof (rule strip_id)
  show "strategy_phrase c @ str ''. Source: '' @ p @ str '' '' @ dash_marker \<noteq> []"
    by (simp add: dash_marker_def)
  show "\<not> isspace (hd (strategy_phrase c @ str ''. Source: '' @ p @ str '' '' @ dash_marker))"
    using phrase_head [of c] by simp
  have "last (strategy_phrase c @ str ''. Source: '' @ p @ str '' '' @ dash_marker) = 8221"
    by (simp add: dash_marker_def)
  then show "\<not> isspace (last (strategy_phrase c @ str ''. Source: '' @ p @ str '' '' @ dash_marker))"
    by (simp add: isspace_def)
qed

lemma present_urls_Nil: "present_urls [] = []"
  by (simp add: present_urls_def)

lemma present_urls_skip:
  "slot = None \<or> (\<exists>d. slot = Some d \<and> (d (str ''url'') = None \<or> d (str ''url'') = Some []))
   \<Longrightarrow> present_urls (slot # rest) = present_urls rest"
  by (auto simp: present_urls_def)

lemma present_urls_take:
  "d (str ''url'') = Some u \<Longrightarrow> u \<noteq> [] \<Longrightarrow> present_urls (Some d # rest) = u # present_urls rest"
  by (simp add: present_urls_def)

lemma upt_shift: "[n ..< Suc (n + k)] = n # [Suc n ..< Suc (n + k)]"
  by (simp add: upt_conv_Cons del: upt_Suc)

lemma index_loop_dense:
  "index_loop l n nums shown =
     (nums @ map marker [n ..< n + length (present_urls l)],
      shown @ zip [n ..< n + length (present_urls l)] (present_urls l))"
proof (induction l arbitrary: n nums shown)
  case Nil
  then show ?case by (simp add: present_urls_Nil)
next
  case (Cons slot rest)
  show ?case
  proof (cases slot)
    case None
    then show ?thesis using Cons.IH [of n nums shown] by (simp add: present_urls_skip)
  next
    case (Some d)
    show ?thesis
    proof (cases "d (str ''url'')")
      case None
      then show ?thesis using Some Cons.IH [of n nums shown] by (simp add: present_urls_skip)
    next
      case (Some u)
      show ?thesis
      proof (cases "u = []")
        case True
        then show ?thesis using \<open>slot = Some d\<close> Some Cons.IH [of n nums shown]
          by (simp add: present_urls_skip)
      next
        case False
        have "index_loop (slot # rest) n nums shown
                = index_loop rest (n + 1) (nums @ [marker n]) (shown @ [(n, u)])"
          using False \<open>slot = Some d\<close> Some by (simp add: marker_def)
        also have "\<dots> = (nums @ marker n # map marker [n + 1 ..< n + 1 + length (present_urls rest)],
                 shown @ (n, u) # zip [n + 1 ..< n + 1 + length (present_urls rest)] (present_urls rest))"
          by (simp add: Cons.IH)
        finally show ?thesis
          using \<open>slot = Some d\<close>
          by (simp add: present_urls_take [of d u rest, OF Some False] upt_shift del: upt_Suc)
      qed
    qed
  qed
qed

lemma build_index_suffix_dense:
  "build_index_suffix (Some l) =
     (let us = present_urls (take 3 l)
      in if us = [] then ([], [])
         else (str '' ('' @ concat (map marker [1 ..< 1 + length us]) @ str '')'',
               zip [1 ..< 1 + length us] us))"
proof (cases "present_urls (take 3 l) = []")
  case True
  then show ?thesis
    by (simp add: build_index_suffix_def index_loop_dense Let_def)
next
  case False
  then have "l \<noteq> []" by (auto simp: present_urls_def)
  moreover from False have "Suc 0 \<le> length (present_urls (take 3 l))"
    by (cases "present_urls (take 3 l)") auto
  ultimately show ?thesis using False
    by (simp add: build_index_suffix_def index_loop_dense Let_def)
qed

lemma one_liner_text:
  "conf_pct (confidence x) = Inr p \<Longrightarrow>
   one_liner x = Inr \<lparr>text_out = (if 180 < length (one_liner_full x)
                                   then take 177 (one_liner_full x) @ ellipsis_marker
                                   else one_liner_full x),
                      refs_numbers = snd (build_index_suffix (req_refs x))\<rparr>"
  by (simp add: one_liner_def one_liner_full_def base_strip Let_def split: prod.splits)

lemma one_liner_scenario:
  "one_liner scenario =
     Inr \<lparr>text_out = str ''Range-bound, IV watch. Source: Reuters '' @ dash_marker @ str '' ([1][2])'',
          refs_numbers = [(1, str ''https://a''), (2, str ''https://b'')]\<rparr>"
  by (simp add: one_liner_def scenario_def conf_pct_def build_index_suffix_def
      strategy_phrase_def str_def str_of_nat.simps strip_def isspace_def dash_marker_def)

lemma one_liner_padded:
  "one_liner padded =
     Inr \<lparr>text_out = str ''Review setup. Source: '' @ replicate 155 32 @ ellipsis_marker,
          refs_numbers = []\<rparr>"
proof -
  have c: "conf_pct (confidence padded) = Inr 0"
    by (simp add: padded_def conf_pct_def round_half_even_def)
  have f: "one_liner_full padded
             = str ''Review setup. Source: '' @ replicate 200 32 @ str '' '' @ dash_marker"
    by (simp add: one_liner_full_def padded_def strategy_phrase_def str_def build_index_suffix_def)
  have l: "length (one_liner_full padded) = 226"
    by (simp add: f str_def dash_marker_def)
  have t: "take 177 (one_liner_full padded) = str ''Review setup. Source: '' @ replicate 155 32"
    by (simp add: f str_def)
  show ?thesis
    using one_liner_text [OF c] by (simp add: l t) (simp add: padded_def build_index_suffix_def)
qed

text \<open>
  C5, as the code has it. For the scenario (IRON_CONDOR, confidence 0.73, publisher Reuters,
  refs \<open>[{url: https://a}, None, {url: https://b}]\<close>) the text is the phrase, the source
  clause with its closing marker, one space and \<open>([1][2])\<close>, and \<open>refs_numbers\<close> maps 1 to
  https://a and 2 to https://b. For any refs list the numbering is dense: the slots among
  the first three that have a non-empty URL are numbered 1, 2, ... in order.
\<close>

theorem one_liner_dense_citations:
  "one_liner scenario =
     Inr \<lparr>text_out = str ''Range-bound, IV watch. Source: Reuters '' @ dash_marker @ str '' ([1][2])'',
          refs_numbers = [(1, str ''https://a''), (2, str ''https://b'')]\<rparr>
   \<and> build_index_suffix (Some l) =
       (let us = present_urls (take 3 l)
        in if us = [] then ([], [])
           else (str '' ('' @ concat (map marker [1 ..< 1 + length us]) @ str '')'',
                 zip [1 ..< 1 + length us] us))"
  using one_liner_scenario build_index_suffix_dense [of l] by (rule conjI)

text \<open>
  C5 as stated fails: in the scenario the text does not start with the phrase, the source
  clause, a dash and \<open>([1][2])\<close> directly after it, neither with the dash U+2014 nor with
  the closing marker of the source file: a space precedes the parenthesis.
\<close>

theorem one_liner_scenario_prefix_counterexample:
  "one_liner scenario =
     Inr \<lparr>text_out = str ''Range-bound, IV watch. Source: Reuters '' @ dash_marker @ str '' ([1][2])'',
          refs_numbers = [(1, str ''https://a''), (2, str ''https://b'')]\<rparr>
   \<and> \<not> prefix (str ''Range-bound, IV watch. Source: Reuters '' @ [8212] @ str ''([1][2])'')
         (str ''Range-bound, IV watch. Source: Reuters '' @ dash_marker @ str '' ([1][2])'')
   \<and> \<not> prefix (str ''Range-bound, IV watch. Source: Reuters '' @ dash_marker @ str ''([1][2])'')
         (str ''Range-bound, IV watch. Source: Reuters '' @ dash_marker @ str '' ([1][2])'')"
  using one_liner_scenario by (simp add: str_def dash_marker_def)

text \<open>
  C6, as the code has it. Whenever the one-liner returns, its text is at most 180
  characters long; when the composed text is longer than 180 characters, the result is
  its first 177 characters followed by the truncation marker, once.
\<close>

theorem one_liner_length_bound:
  assumes "one_liner x = Inr out"
  shows "length (text_out out) \<le> 180 \<and>
         text_out out = (if 180 < length (one_liner_full x)
                         then take 177 (one_liner_full x) @ ellipsis_marker
                         else one_liner_full x)"
proof -
  from assms obtain p where p: "conf_pct (confidence x) = Inr p"
    by (cases "conf_pct (confidence x)") (auto simp: one_liner_def)
  from one_liner_text [OF p] assms
  have t: "text_out out = (if 180 < length (one_liner_full x)
                         then take 177 (one_liner_full x) @ ellipsis_marker
                         else one_liner_full x)"
    by auto
  then have "length (text_out out) \<le> 180"
    by (simp add: ellipsis_marker_def)
  with t show ?thesis by simp
qed

theorem one_liner_length_bound_witness:
  "length (str ''Review setup. Source: '' @ replicate 155 32 @ ellipsis_marker) \<le> 180"
  using one_liner_length_bound [OF one_liner_padded, THEN conjunct1] by simp

text \<open>
  C6 as stated fails: with a publisher of 200 spaces the text is truncated and the
  character before the truncation marker is a space.
\<close>

theorem one_liner_trailing_space_counterexample:
  "one_liner padded =
     Inr \<lparr>text_out = str ''Review setup. Source: '' @ replicate 155 32 @ ellipsis_marker,
          refs_numbers = []\<rparr>
   \<and> isspace (last (str ''Review setup. Source: '' @ replicate 155 32))"
  using one_liner_padded by (simp add: isspace_def)

text \<open>
  C10, as the code has it. Two requests that agree on the classification label, the
  publisher and the refs, and whose confidences both convert to a percentage, get the same
  response, whatever their confidence, title and url.
\<close>

theorem one_liner_ignores_confidence_title_url:
  assumes "class_label a = class_label b" and "publisher a = publisher b"
    and "req_refs a = req_refs b"
    and "conf_pct (confidence a) = Inr p" and "conf_pct (confidence b) = Inr q"
  shows "one_liner a = one_liner b"
  using assms
  by (simp add: one_liner_text [OF assms(4)] one_liner_text [OF assms(5)] one_liner_full_def)

theorem one_liner_ignores_confidence_title_url_witness:
  "one_liner scenario
     = one_liner (scenario\<lparr>confidence := Finite 0.1, title := str ''t'', url := str ''u''\<rparr>)"
proof -
  have a: "conf_pct (confidence scenario) = Inr 73"
    by (simp add: scenario_def conf_pct_def round_half_even_def)
  have b: "conf_pct (confidence (scenario\<lparr>confidence := Finite 0.1, title := str ''t'',
             url := str ''u''\<rparr>)) = Inr 10"
    by (simp add: conf_pct_def round_half_even_def)
  show ?thesis
    by (rule one_liner_ignores_confidence_title_url [OF _ _ _ a b]) simp_all
qed

text \<open>
  C10 as stated fails: the scenario and the same request with a NaN confidence agree on
  label, publisher and refs; the first returns a text, the second raises.
\<close>

theorem one_liner_nan_confidence_counterexample:
  "class_label (scenario\<lparr>confidence := NaN\<rparr>) = class_label scenario
   \<and> publisher (scenario\<lparr>confidence := NaN\<rparr>) = publisher scenario
   \<and> req_refs (scenario\<lparr>confidence := NaN\<rparr>) = req_refs scenario
   \<and> one_liner (scenario\<lparr>confidence := NaN\<rparr>)
       = Inl (ValueError (str ''cannot convert float NaN to integer''))
   \<and> one_liner scenario =
     Inr \<lparr>text_out = str ''Range-bound, IV watch. Source: Reuters '' @ dash_marker @ str '' ([1][2])'',
          refs_numbers = [(1, str ''https://a''), (2, str ''https://b'')]\<rparr>"
  using one_liner_scenario by (simp add: one_liner_def conf_pct_def)

section \<open>Properties of the gateway retries\<close>

lemma retry_loop_all_fail:
  "time_sleep d = None \<Longrightarrow>
   retry_loop (Suc k) i d (\<lambda>j. Inl (errs j) :: exn + 'r) last_exc st =
     (Exhausted (Some (errs (i + k))),
      st\<lparr>attempts := attempts st + Suc k, sleeps := sleeps st @ replicate (Suc k) d\<rparr>)"
proof (induction k arbitrary: i last_exc st)
  case 0
  then show ?case by simp
next
  case (Suc k)
  have "retry_loop (Suc (Suc k)) i d (\<lambda>j. Inl (errs j) :: exn + 'r) last_exc st =
          retry_loop (Suc k) (i + 1) d (\<lambda>j. Inl (errs j)) (Some (errs i))
            (st\<lparr>attempts := attempts st + 1, sleeps := sleeps st @ [d]\<rparr>)"
    using Suc.prems by simp
  also have "\<dots> = (Exhausted (Some (errs (i + Suc k))),
      st\<lparr>attempts := attempts st + Suc (Suc k), sleeps := sleeps st @ replicate (Suc (Suc k)) d\<rparr>)"
    by (subst Suc.IH [OF Suc.prems]) simp
  finally show ?case .
qed

lemma retry_loop_twice_then_ok:
  "time_sleep d = None \<Longrightarrow>
   callee 0 = Inl e0 \<Longrightarrow> callee 1 = Inl e1 \<Longrightarrow> callee 2 = Inr body \<Longrightarrow>
   retry_loop 3 0 d callee last_exc st =
     (Returned body, st\<lparr>attempts := attempts st + 3, sleeps := sleeps st @ [d, d]\<rparr>)"
  by (simp add: eval_nat_numeral)

text \<open>
  C3. Let \<open>DELAY\<close> be a length \<open>time.sleep\<close> accepts. With \<open>RETRIES = 2\<close>, a callee that
  fails twice and then succeeds makes \<open>_get_json\<close> and \<open>_post_json\<close> return its answer after
  exactly 3 attempts (and 2 sleeps of \<open>DELAY\<close>). With any \<open>RETRIES \<ge> 0\<close>, a callee that
  always fails makes them raise the 502 after exactly \<open>RETRIES + 1\<close> attempts, each followed
  by a sleep of the same \<open>DELAY\<close>.
\<close>

theorem gateway_retry:
  assumes "time_sleep d = None"
  shows
  "(callee 0 = Inl e0 \<and> callee 1 = Inl e1 \<and> callee 2 = Inr body \<longrightarrow>
      get_json 2 d callee u st =
        (Inr body, st\<lparr>attempts := attempts st + 3, sleeps := sleeps st @ [d, d]\<rparr>)
    \<and> post_json 2 d callee u st =
        (Inr body, st\<lparr>attempts := attempts st + 3, sleeps := sleeps st @ [d, d]\<rparr>))
   \<and> (0 \<le> retries \<longrightarrow>
      get_json retries d (\<lambda>j. Inl (errs j)) u st =
        (Inl (HTTPException 502 (str ''GET '' @ u @ str '' failed: '' @ exn_str (errs (nat retries)))),
         st\<lparr>attempts := attempts st + nat (retries + 1),
            sleeps := sleeps st @ replicate (nat (retries + 1)) d\<rparr>)
    \<and> post_json retries d (\<lambda>j. Inl (errs j)) u st =
        (Inl (HTTPException 502 (str ''POST '' @ u @ str '' failed: '' @ exn_str (errs (nat retries)))),
         st\<lparr>attempts := attempts st + nat (retries + 1),
            sleeps := sleeps st @ replicate (nat (retries + 1)) d\<rparr>))"
proof (intro conjI impI)
  assume a: "callee 0 = Inl e0 \<and> callee 1 = Inl e1 \<and> callee 2 = Inr body"
  then have r: "retry_loop 3 0 d callee None st =
     (Returned body, st\<lparr>attempts := attempts st + 3, sleeps := sleeps st @ [d, d]\<rparr>)"
    using assms by (simp add: retry_loop_twice_then_ok)
  show "get_json 2 d callee u st =
        (Inr body, st\<lparr>attempts := attempts st + 3, sleeps := sleeps st @ [d, d]\<rparr>)"
    by (simp add: get_json_def r)
  show "post_json 2 d callee u st =
        (Inr body, st\<lparr>attempts := attempts st + 3, sleeps := sleeps st @ [d, d]\<rparr>)"
    by (simp add: post_json_def r)
next
  assume "0 \<le> retries"
  then have n: "nat (retries + 1) = Suc (nat retries)" by auto
  show "get_json retries d (\<lambda>j. Inl (errs j)) u st =
        (Inl (HTTPException 502 (str ''GET '' @ u @ str '' failed: '' @ exn_str (errs (nat retries)))),
         st\<lparr>attempts := attempts st + nat (retries + 1),
            sleeps := sleeps st @ replicate (nat (retries + 1)) d\<rparr>)"
    by (simp add: get_json_def n retry_loop_all_fail [OF assms] str_exc_def
        del: replicate.simps retry_loop.simps)
  show "post_json retries d (\<lambda>j. Inl (errs j)) u st =
        (Inl (HTTPException 502 (str ''POST '' @ u @ str '' failed: '' @ exn_str (errs (nat retries)))),
         st\<lparr>attempts := attempts st + nat (retries + 1),
            sleeps := sleeps st @ replicate (nat (retries + 1)) d\<rparr>)"
    by (simp add: post_json_def n retry_loop_all_fail [OF assms] str_exc_def
        del: replicate.simps retry_loop.simps)
qed

theorem gateway_retry_witness:
  "get_json 2 (Finite 0.25) flaky (str ''http://ctx'') \<lparr>attempts = 0, sleeps = []\<rparr> =
        (Inr 7, \<lparr>attempts = 3, sleeps = [Finite 0.25, Finite 0.25]\<rparr>)
   \<and> post_json 2 (Finite 0.25) (\<lambda>j. Inl (TiError (str ''down'')) :: exn + nat) (str ''http://rec'')
         \<lparr>attempts = 0, sleeps = []\<rparr> =
        (Inl (HTTPException 502 (str ''POST http://rec failed: down'')),
         \<lparr>attempts = 3, sleeps = [Finite 0.25, Finite 0.25, Finite 0.25]\<rparr>)"
proof
  have d: "time_sleep (Finite 0.25) = None"
    by (simp add: time_sleep_def)
  have f: "flaky 0 = Inl (OtherError (str ''ConnectError'') (str ''down''))
           \<and> flaky 1 = Inl (OtherError (str ''ConnectError'') (str ''down''))
           \<and> flaky 2 = Inr 7"
    by (simp add: flaky_def)
  have "get_json 2 (Finite 0.25) flaky (str ''http://ctx'') \<lparr>attempts = 0, sleeps = []\<rparr> =
        (Inr 7, \<lparr>attempts = 0, sleeps = []\<rparr>
           \<lparr>attempts := attempts \<lparr>attempts = 0, sleeps = []\<rparr> + 3,
            sleeps := sleeps \<lparr>attempts = 0, sleeps = []\<rparr> @ [Finite 0.25, Finite 0.25]\<rparr>)"
    by (rule gateway_retry [OF d, THEN conjunct1, rule_format, OF f, THEN conjunct1])
  then show "get_json 2 (Finite 0.25) flaky (str ''http://ctx'') \<lparr>attempts = 0, sleeps = []\<rparr> =
        (Inr 7, \<lparr>attempts = 3, sleeps = [Finite 0.25, Finite 0.25]\<rparr>)"
    by simp
  have "post_json 2 (Finite 0.25) (\<lambda>j. Inl (TiError (str ''down'')) :: exn + nat) (str ''http://rec'')
         \<lparr>attempts = 0, sleeps = []\<rparr> =
        (Inl (HTTPException 502 (str ''POST '' @ str ''http://rec'' @ str '' failed: ''
                @ exn_str (TiError (str ''down'')))),
         \<lparr>attempts = 0, sleeps = []\<rparr>
           \<lparr>attempts := attempts \<lparr>attempts = 0, sleeps = []\<rparr> + nat (2 + 1),
            sleeps := sleeps \<lparr>attempts = 0, sleeps = []\<rparr> @ replicate (nat (2 + 1)) (Finite 0.25)\<rparr>)"
    by (rule gateway_retry [OF d, THEN conjunct2, rule_format, THEN conjunct2]) simp
  then show "post_json 2 (Finite 0.25) (\<lambda>j. Inl (TiError (str ''down'')) :: exn + nat) (str ''http://rec'')
         \<lparr>attempts = 0, sleeps = []\<rparr> =
        (Inl (HTTPException 502 (str ''POST http://rec failed: down'')),
         \<lparr>attempts = 3, sleeps = [Finite 0.25, Finite 0.25, Finite 0.25]\<rparr>)"
    by (simp add: str_def) (simp add: numeral_3_eq_3)
qed

section \<open>Properties of the quote ring\<close>

lemma scan_base_find:
  "scan_base xs cutoff base =
     (case find (\<lambda>(t, px). t \<le> cutoff) xs of
        Some (t, px) \<Rightarrow> Some px
      | None \<Rightarrow> if xs = [] then base else Some (snd (last xs)))"
  by (induction xs cutoff base rule: scan_base.induct) (auto split: option.splits)

text \<open>
  C8. \<open>_ret_from_ring\<close> returns what the specification says of \<open>trailingReturn\<close>, the
  cutoff being the clock reading minus the minutes asked for; in particular 0 for an
  empty ring and for a zero baseline.
\<close>

theorem ret_from_ring_trailing_return:
  "fst (ret_from_ring ticker minutes st)
     = trailing_return (ring_of st ticker) (fst (now st) - minutes * minute)"
proof (cases "QUOTE_RING st ticker")
  case None
  then show ?thesis by (simp add: ret_from_ring_def trailing_return_def ring_of_def)
next
  case (Some ring)
  show ?thesis
  proof (cases "ring = []")
    case True
    with Some show ?thesis by (simp add: ret_from_ring_def trailing_return_def ring_of_def)
  next
    case False
    then have l: "last (rev ring) = hd ring" by (simp add: last_rev)
    from False Some show ?thesis
      by (auto simp: ret_from_ring_def trailing_return_def ring_of_def scan_base_find l Let_def
          split: prod.splits option.splits)
  qed
qed

lemma now_facts:
  "now st = (t, st') \<Longrightarrow>
     clock st' = t \<and> QUOTE_RING st' = QUOTE_RING st \<and> CACHE st' = CACHE st
     \<and> calls st' = calls st \<and> (steady st \<longrightarrow> clock st \<le> t \<and> steady st')"
  by (auto simp: now_def steady_def split: list.splits)

lemma dropWhile_old:
  "sorted (map fst ys) \<Longrightarrow> x \<in> set (dropWhile (\<lambda>(t, px). t < c) ys) \<Longrightarrow> c \<le> fst x"
proof (induction ys)
  case Nil
  then show ?case by simp
next
  case (Cons y ys)
  show ?case
  proof (cases "fst y < c")
    case True
    with Cons show ?thesis by (auto simp: case_prod_beta)
  next
    case False
    with Cons.prems have "x \<in> set (y # ys)" by (auto simp: case_prod_beta)
    with Cons.prems(1) have "fst y \<le> fst x" by auto
    with False show ?thesis by simp
  qed
qed

lemma sorted_dropWhile: "sorted (map fst ys) \<Longrightarrow> sorted (map fst (dropWhile P ys))"
  by (induction ys) auto

lemma deque_append_length: "length (deque_append 600 xs x) \<le> 600"
  by (simp add: deque_append_def)

lemma deque_append_sorted:
  "sorted (map fst xs) \<Longrightarrow> \<forall>y \<in> set xs. fst y \<le> fst x \<Longrightarrow> sorted (map fst (deque_append m xs x))"
proof -
  assume "sorted (map fst xs)" and "\<forall>y \<in> set xs. fst y \<le> fst x"
  then have "sorted (map fst (xs @ [x]))" by (auto simp: sorted_append)
  then have "sorted (drop (length xs + 1 - m) (map fst (xs @ [x])))" by (rule sorted_wrt_drop)
  then show ?thesis by (simp only: deque_append_def drop_map)
qed

lemma deque_append_set: "set (deque_append m xs x) \<subseteq> insert x (set xs)"
proof -
  have "set (drop (length xs + 1 - m) (xs @ [x])) \<subseteq> set (xs @ [x])" by (rule set_drop_subset)
  then show ?thesis by (auto simp: deque_append_def)
qed

lemma note_quote_ring:
  assumes "now st = (t1, st1)" and "now st1 = (t2, st2)"
  shows "QUOTE_RING (note_quote ticker p st)
           = (QUOTE_RING st)(ticker \<mapsto>
                dropWhile (\<lambda>(t, px). t < t2 - 10 * minute)
                  (deque_append 600 (ring_of st ticker) (t1, p)))"
    and "clock (note_quote ticker p st) = t2"
    and "ticks (note_quote ticker p st) = ticks st2"
  using assms now_facts [OF assms(1)] now_facts [OF assms(2)]
  by (simp_all add: note_quote_def ring_of_def Let_def)

lemma note_quote_size:
  assumes "size_ok st"
  shows "size_ok (note_quote ticker p st)"
proof -
  obtain t1 st1 where n1: "now st = (t1, st1)" by (cases "now st")
  obtain t2 st2 where n2: "now st1 = (t2, st2)" by (cases "now st1")
  let ?app = "deque_append 600 (ring_of st ticker) (t1, p)"
  let ?new = "dropWhile (\<lambda>(t, px). t < t2 - 10 * minute) ?app"
  have "length ?new \<le> length ?app" by (rule length_dropWhile_le)
  then have new_len: "length ?new \<le> 600"
    using deque_append_length [of "ring_of st ticker" "(t1, p)"] by linarith
  show ?thesis
    unfolding size_ok_def note_quote_ring(1) [OF n1 n2]
  proof (intro allI impI)
    fix t r
    assume r: "((QUOTE_RING st)(ticker \<mapsto> ?new)) t = Some r"
    show "length r \<le> 600"
    proof (cases "t = ticker")
      case True
      with r new_len show ?thesis by simp
    next
      case False
      with r have "QUOTE_RING st t = Some r" by simp
      with assms show ?thesis unfolding size_ok_def by blast
    qed
  qed
qed

lemma reaches_size: "reaches s st \<Longrightarrow> size_ok s \<Longrightarrow> size_ok st"
proof (induction rule: reaches.induct)
  case (here s)
  then show ?case .
next
  case (clock_read s st)
  obtain t st' where n: "now st = (t, st')" by (cases "now st")
  from now_facts [OF n] clock_read show ?case by (simp add: size_ok_def n)
next
  case (noted s st ticker p)
  then show ?case by (simp add: note_quote_size)
next
  case (elsewhere s st c cs)
  then show ?case by (simp add: size_ok_def)
qed

lemma ring_ok_of:
  assumes "ring_ok st"
  shows "sorted (map fst (ring_of st tk)) \<and> (\<forall>y \<in> set (ring_of st tk). fst y \<le> clock st)"
proof (cases "QUOTE_RING st tk")
  case None
  then show ?thesis by (simp add: ring_of_def)
next
  case (Some r)
  with assms have "sorted (map fst r) \<and> (\<forall>x\<in>set r. fst x \<le> clock st)"
    unfolding ring_ok_def by blast
  with Some show ?thesis by (simp add: ring_of_def)
qed

lemma note_quote_ok:
  assumes "ring_ok st" and "steady st"
  shows "ring_ok (note_quote ticker p st) \<and> steady (note_quote ticker p st)"
proof -
  obtain t1 st1 where n1: "now st = (t1, st1)" by (cases "now st")
  obtain t2 st2 where n2: "now st1 = (t2, st2)" by (cases "now st1")
  note f1 = now_facts [OF n1] and f2 = now_facts [OF n2]
  from f1 assms(2) have le1: "clock st \<le> t1" and s1: "steady st1" by simp_all
  from f2 s1 f1 have le2: "t1 \<le> t2" and s2: "steady st2" by simp_all
  let ?old = "ring_of st ticker"
  let ?app = "deque_append 600 ?old (t1, p)"
  let ?new = "dropWhile (\<lambda>(t, px). t < t2 - 10 * minute) ?app"
  have old: "sorted (map fst ?old)" "\<forall>y \<in> set ?old. fst y \<le> clock st"
    using ring_ok_of [OF assms(1), of ticker] by simp_all
  have app_sorted: "sorted (map fst ?app)"
    using old le1 by (intro deque_append_sorted) auto
  have app_le: "\<forall>y \<in> set ?app. fst y \<le> t2"
  proof
    fix y
    assume "y \<in> set ?app"
    with deque_append_set [of 600 ?old "(t1, p)"] have "y = (t1, p) \<or> y \<in> set ?old" by blast
    then show "fst y \<le> t2"
    proof
      assume "y = (t1, p)"
      with le2 show ?thesis by simp
    next
      assume "y \<in> set ?old"
      with old(2) have "fst y \<le> clock st" by blast
      with le1 le2 show ?thesis by linarith
    qed
  qed
  have new_sorted: "sorted (map fst ?new)"
    using app_sorted by (rule sorted_dropWhile)
  have new_le: "\<forall>y \<in> set ?new. fst y \<le> t2"
    using app_le set_dropWhileD by fast
  have "ring_ok (note_quote ticker p st)"
    unfolding ring_ok_def note_quote_ring(1,2) [OF n1 n2]
  proof (intro allI impI)
    fix t r
    assume r: "((QUOTE_RING st)(ticker \<mapsto> ?new)) t = Some r"
    show "sorted (map fst r) \<and> (\<forall>x\<in>set r. fst x \<le> t2)"
    proof (cases "t = ticker")
      case True
      with r have "r = ?new" by simp
      with new_sorted new_le show ?thesis by simp
    next
      case False
      with r have "QUOTE_RING st t = Some r" by simp
      with assms(1) have o: "sorted (map fst r)" "\<forall>x\<in>set r. fst x \<le> clock st"
        unfolding ring_ok_def by blast+
      have "\<forall>x\<in>set r. fst x \<le> t2"
      proof
        fix x
        assume "x \<in> set r"
        with o(2) have "fst x \<le> clock st" by blast
        with le1 le2 show "fst x \<le> t2" by linarith
      qed
      with o(1) show ?thesis by simp
    qed
  qed
  moreover have "steady (note_quote ticker p st)"
    using s2 by (simp add: steady_def note_quote_ring(3) [OF n1 n2])
  ultimately show ?thesis ..
qed

lemma reaches_ok: "reaches s st \<Longrightarrow> ring_ok s \<Longrightarrow> steady s \<Longrightarrow> ring_ok st \<and> steady st"
proof (induction rule: reaches.induct)
  case (here s)
  then show ?case by (intro conjI)
next
  case (clock_read s st)
  obtain t st' where n: "now st = (t, st')" by (cases "now st")
  from clock_read.IH [OF clock_read.prems] have ok: "ring_ok st" "steady st" by (rule conjunct1, rule conjunct2)
  from now_facts [OF n] ok(2)
  have q: "QUOTE_RING st' = QUOTE_RING st" and c: "clock st \<le> clock st'" and s: "steady st'"
    by blast+
  have "ring_ok st'"
    unfolding ring_ok_def
  proof (intro allI impI)
    fix tk r
    assume "QUOTE_RING st' tk = Some r"
    with q have "QUOTE_RING st tk = Some r" by simp
    with ok(1) have o: "sorted (map fst r)" "\<forall>x\<in>set r. fst x \<le> clock st"
      unfolding ring_ok_def by blast+
    have "\<forall>x\<in>set r. fst x \<le> clock st'"
    proof
      fix x
      assume "x \<in> set r"
      with o(2) have "fst x \<le> clock st" by blast
      with c show "fst x \<le> clock st'" by linarith
    qed
    with o(1) show "sorted (map fst r) \<and> (\<forall>x\<in>set r. fst x \<le> clock st')" by (rule conjI)
  qed
  moreover have "snd (now st) = st'" by (simp only: n snd_conv)
  ultimately show ?case using s by (simp only: simp_thms)
next
  case (noted s st ticker p)
  from noted.IH [OF noted.prems] have ok: "ring_ok st" "steady st" by (rule conjunct1, rule conjunct2)
  show ?case by (rule note_quote_ok [OF ok])
next
  case (elsewhere s st cs c)
  from elsewhere.IH [OF elsewhere.prems] have ok: "ring_ok st" "steady st" by (rule conjunct1, rule conjunct2)
  have "QUOTE_RING (st\<lparr>CACHE := c, calls := cs\<rparr>) = QUOTE_RING st"
       "clock (st\<lparr>CACHE := c, calls := cs\<rparr>) = clock st"
       "ticks (st\<lparr>CACHE := c, calls := cs\<rparr>) = ticks st" by simp_all
  with ok show ?case unfolding ring_ok_def steady_def by (simp only: simp_thms)
qed

text \<open>
  C7, as the code has it. From a start with no ring, no ring ever has more than 600
  entries, and after \<open>_note_quote\<close> the ring of the ticker is a suffix of the old ring
  with the new sample appended (an oldest-first trim) and has at most 600 entries. If the
  clock has never run backwards since that start, the ring holds no sample more than 10
  minutes older than the timestamp of the appended sample.
\<close>

theorem quote_ring_bounds:
  assumes "QUOTE_RING s0 = Map.empty" and "reaches s0 st"
  shows "(QUOTE_RING st t = Some r \<longrightarrow> length r \<le> 600)
       \<and> (QUOTE_RING (note_quote ticker p st) ticker = Some r' \<longrightarrow>
            length r' \<le> 600
          \<and> suffix r' (ring_of st ticker @ [(fst (now st), p)])
          \<and> (steady s0 \<longrightarrow> (\<forall>x \<in> set r'. fst (now st) - 10 * minute \<le> fst x)))"
proof (intro conjI impI)
  have s0: "size_ok s0" "ring_ok s0" using assms(1) by (simp_all add: size_ok_def ring_ok_def)
  have sz: "size_ok st" using reaches_size [OF assms(2) s0(1)] .
  {
    assume "QUOTE_RING st t = Some r"
    with sz show "length r \<le> 600" unfolding size_ok_def by blast
  }
  assume r': "QUOTE_RING (note_quote ticker p st) ticker = Some r'"
  obtain t1 st1 where n1: "now st = (t1, st1)" by (cases "now st")
  obtain t2 st2 where n2: "now st1 = (t2, st2)" by (cases "now st1")
  let ?app = "deque_append 600 (ring_of st ticker) (t1, p)"
  from r' have eq: "r' = dropWhile (\<lambda>(t, px). t < t2 - 10 * minute) ?app"
    by (simp add: note_quote_ring(1) [OF n1 n2])
  have "size_ok (note_quote ticker p st)" using sz by (rule note_quote_size)
  with r' show "length r' \<le> 600" unfolding size_ok_def by blast
  have "suffix r' ?app" unfolding eq by (rule suffix_dropWhile)
  moreover have "suffix ?app (ring_of st ticker @ [(t1, p)])"
    unfolding deque_append_def by (rule suffix_drop)
  ultimately have "suffix r' (ring_of st ticker @ [(t1, p)])"
    by (rule suffix_order.trans)
  then show "suffix r' (ring_of st ticker @ [(fst (now st), p)])"
    by (simp add: n1)
  assume "steady s0"
  with reaches_ok [OF assms(2) s0(2)] have ok: "ring_ok st" "steady st" by simp_all
  note f1 = now_facts [OF n1] and f2 = now_facts [OF n2]
  from f1 ok(2) have le1: "clock st \<le> t1" and s1: "steady st1" by simp_all
  from f2 s1 f1 have le2: "t1 \<le> t2" by simp
  have old: "sorted (map fst (ring_of st ticker))" "\<forall>y \<in> set (ring_of st ticker). fst y \<le> clock st"
    using ring_ok_of [OF ok(1), of ticker] by simp_all
  have "sorted (map fst ?app)"
    using old le1 by (intro deque_append_sorted) auto
  then have cut: "\<forall>x \<in> set r'. t2 - 10 * minute \<le> fst x"
    unfolding eq using dropWhile_old by blast
  show "\<forall>x \<in> set r'. fst (now st) - 10 * minute \<le> fst x"
  proof
    fix x
    assume "x \<in> set r'"
    with cut have "t2 - 10 * minute \<le> fst x" by blast
    with le2 show "fst (now st) - 10 * minute \<le> fst x" by (simp add: n1)
  qed
qed

lemma st0_1:
  "note_quote (str ''X'') 5 st0 =
     \<lparr>QUOTE_RING = [str ''X'' \<mapsto> [(1000000, 5)]], CACHE = Map.empty, clock = 1000000,
      ticks = [15 * 60000000, 0], calls = []\<rparr>"
  by (simp add: note_quote_def now_def st0_def deque_append_def minute_def Let_def)

lemma two_notes:
  "QUOTE_RING (note_quote (str ''X'') 6 (note_quote (str ''X'') 5 st0)) (str ''X'')
     = Some [(901000000, 6)]
   \<and> fst (now (note_quote (str ''X'') 5 st0)) = 901000000"
  unfolding st0_1
  by (simp add: note_quote_def now_def deque_append_def minute_def Let_def)

theorem quote_ring_bounds_witness:
  "QUOTE_RING (note_quote (str ''X'') 6 (note_quote (str ''X'') 5 st0)) (str ''X'')
     = Some [(901000000, 6)]
   \<and> length [(901000000 :: int, 6 :: real)] \<le> 600
   \<and> 901000000 - 10 * minute \<le> fst (901000000 :: int, 6 :: real)"
proof -
  have s: "QUOTE_RING st0 = Map.empty" by (simp add: st0_def)
  have r: "reaches st0 (note_quote (str ''X'') 5 st0)"
    by (rule reaches.noted [OF reaches.here])
  have d: "steady st0" by (simp add: steady_def st0_def)
  from quote_ring_bounds [OF s r, of "str ''X''" "[]" "str ''X''" 6 "[(901000000, 6)]"] two_notes d
  show ?thesis by simp
qed

lemma set_back_1:
  "note_quote (str ''X'') 1 set_back =
     \<lparr>QUOTE_RING = [str ''X'' \<mapsto> [(1200000000, 1)]], CACHE = Map.empty, clock = 1200000000,
      ticks = [- (15 * 60000000), 0, 24 * 60000000, 0], calls = []\<rparr>"
  by (simp add: note_quote_def now_def set_back_def deque_append_def minute_def Let_def)

lemma set_back_2:
  "note_quote (str ''X'') 2 (note_quote (str ''X'') 1 set_back) =
     \<lparr>QUOTE_RING = [str ''X'' \<mapsto> [(1200000000, 1), (300000000, 2)]], CACHE = Map.empty,
      clock = 300000000, ticks = [24 * 60000000, 0], calls = []\<rparr>"
  unfolding set_back_1
  by (simp add: note_quote_def now_def deque_append_def minute_def Let_def)

text \<open>
  C7 as stated fails. The clock reads 20 min (twice), is set back and reads 5 min
  (twice), then reads 29 min (twice); a quote is noted at each pair. The trim stops at the
  sample of 20 min, and the ring keeps the sample of 5 min, 24 minutes older than the last
  append.
\<close>

theorem quote_ring_clock_set_back_counterexample:
  "QUOTE_RING (note_quote (str ''X'') 3 (note_quote (str ''X'') 2 (note_quote (str ''X'') 1 set_back)))
     (str ''X'')
     = Some [(1200000000, 1), (300000000, 2), (1740000000, 3)]
   \<and> fst (now (note_quote (str ''X'') 2 (note_quote (str ''X'') 1 set_back))) = 1740000000
   \<and> (300000000 :: int) < 1740000000 - 10 * minute"
  unfolding set_back_2
  by (simp add: note_quote_def now_def deque_append_def minute_def Let_def)

section \<open>Properties of the feature aggregation\<close>

lemma iso_now_frame:
  "CACHE (snd (iso_now st)) = CACHE st \<and> calls (snd (iso_now st)) = calls st
   \<and> QUOTE_RING (snd (iso_now st)) = QUOTE_RING st"
  by (simp add: iso_now_def now_def split_beta split: list.splits)

lemma demo_feats:
  "synthetic_feats demo_env =
     Inr \<lparr>sent_mean = 0, sent_std = 0.05, r_1m = 0, r_5m = 0, above_sma20 = False,
          mins_since_news = 12, rv20 = 0.02, earnings_soon = False, liquidity_flag = True\<rparr>"
  by (simp add: synthetic_feats_def demo_env_def live_env_def)

lemma demo_run:
  "build_features_for demo_env (str ''X'') fresh =
     (Inr (synthetic_payload
            \<lparr>sent_mean = 0, sent_std = 0.05, r_1m = 0, r_5m = 0, above_sma20 = False,
             mins_since_news = 12, rv20 = 0.02, earnings_soon = False, liquidity_flag = True\<rparr>
            None None 0), fresh)"
  by (simp add: build_features_for_def demo_feats is_live_def iso_now_def now_def fresh_def)
     (simp add: demo_env_def live_env_def)

text \<open>
  C9, as the code has it. In non-live mode, when the indicator library returns the
  synthetic features, \<open>build_features_for\<close> returns the synthetic payload built from them;
  it reads the clock for the timestamp and does nothing else: no call to a provider, to
  the sentiment service or to the cache is made, and the cache and the quote rings are
  left as they were.
\<close>

theorem non_live_no_calls_no_cache:
  assumes "\<not> is_live env" and "synthetic_feats env = Inr feats"
  shows "build_features_for env ticker st =
           (Inr (synthetic_payload feats None None (fst (iso_now st))), snd (iso_now st))
       \<and> calls (snd (iso_now st)) = calls st
       \<and> CACHE (snd (iso_now st)) = CACHE st
       \<and> QUOTE_RING (snd (iso_now st)) = QUOTE_RING st"
  using assms iso_now_frame [of st] by (simp add: build_features_for_def split_beta)

theorem non_live_no_calls_no_cache_witness:
  "build_features_for demo_env (str ''X'') fresh =
     (Inr (synthetic_payload
            \<lparr>sent_mean = 0, sent_std = 0.05, r_1m = 0, r_5m = 0, above_sma20 = False,
             mins_since_news = 12, rv20 = 0.02, earnings_soon = False, liquidity_flag = True\<rparr>
            None None 0), fresh)
   \<and> calls fresh = []"
proof -
  have l: "\<not> is_live demo_env" by (simp add: is_live_def demo_env_def live_env_def)
  have i: "iso_now fresh = (0, fresh)" by (simp add: iso_now_def now_def fresh_def)
  from non_live_no_calls_no_cache [OF l demo_feats, of "str ''X''" fresh] i
  show ?thesis by (simp add: fresh_def)
qed

text \<open>
  C9 as stated fails: in non-live mode, from an empty cache, the call returns the
  synthetic payload and the cache still has no entry for the ticker.
\<close>

theorem non_live_cache_not_written_counterexample:
  "\<not> is_live demo_env
   \<and> build_features_for demo_env (str ''X'') fresh =
     (Inr (synthetic_payload
            \<lparr>sent_mean = 0, sent_std = 0.05, r_1m = 0, r_5m = 0, above_sma20 = False,
             mins_since_news = 12, rv20 = 0.02, earnings_soon = False, liquidity_flag = True\<rparr>
            None None 0), fresh)
   \<and> CACHE fresh (str ''X'') = None"
  using demo_run by (simp add: is_live_def demo_env_def live_env_def fresh_def)

subsection \<open>The reference merge\<close>

lemma found_urls_Nil: "found_urls [] = {}"
  by (simp add: found_urls_def)

lemma found_urls_Cons:
  "found_urls (h # hs) =
     (if strip (get_or_empty h ''title'') \<noteq> [] \<and> strip (get_or_empty h ''url'') \<noteq> []
      then insert (strip (get_or_empty h ''url'')) (found_urls hs) else found_urls hs)"
  by (auto simp: found_urls_def)

lemma found_urls_append: "found_urls (xs @ ys) = found_urls xs \<union> found_urls ys"
  by (auto simp: found_urls_def)

lemma finite_found_urls: "finite (found_urls hs)"
  by (simp add: found_urls_def)

lemma merge_loop_count:
  "length out < 3 \<Longrightarrow> finite seen \<Longrightarrow>
     length (snd (merge_loop hs seen out)) = min 3 (length out + card (found_urls hs - seen))
   \<and> (length (snd (merge_loop hs seen out)) < 3 \<longrightarrow>
        fst (merge_loop hs seen out) = seen \<union> found_urls hs)"
proof (induction hs arbitrary: seen out)
  case Nil
  then show ?case by (simp add: found_urls_Nil)
next
  case (Cons h rest)
  let ?t = "strip (get_or_empty h ''title'')"
  let ?u = "strip (get_or_empty h ''url'')"
  show ?case
  proof (cases "?t = [] \<or> ?u = []")
    case True
    then have "found_urls (h # rest) = found_urls rest" by (auto simp: found_urls_Cons)
    with True Cons.IH [OF Cons.prems] show ?thesis by (simp add: Let_def)
  next
    case valid: False
    then have fu: "found_urls (h # rest) = insert ?u (found_urls rest)"
      by (simp add: found_urls_Cons)
    show ?thesis
    proof (cases "?u \<in> seen")
      case True
      then have "found_urls (h # rest) - seen = found_urls rest - seen"
        and "seen \<union> found_urls (h # rest) = seen \<union> found_urls rest"
        by (auto simp: fu)
      with valid True Cons.IH [OF Cons.prems] show ?thesis by (simp add: Let_def)
    next
      case new: False
      have fin: "finite (found_urls rest - insert ?u seen)"
        using finite_found_urls by blast
      have d: "found_urls (h # rest) - seen = insert ?u (found_urls rest - insert ?u seen)"
        using new by (auto simp: fu)
      have c: "card (found_urls (h # rest) - seen) = Suc (card (found_urls rest - insert ?u seen))"
        unfolding d using fin by simp
      show ?thesis
      proof (cases "length out = 2")
        case True
        with valid new c show ?thesis by (simp add: Let_def)
      next
        case False
        with Cons.prems have l: "length (out @ [[str ''title'' \<mapsto> ?t,
               str ''publisher'' \<mapsto> (if strip (get_or_empty h ''publisher'') = [] then str ''News''
                                        else strip (get_or_empty h ''publisher'')),
               str ''url'' \<mapsto> ?u]]) < 3" by simp
        have f: "finite (insert ?u seen)" using Cons.prems by simp
        from Cons.IH [OF l f] valid new False Cons.prems c show ?thesis
          by (simp add: Let_def fu)
      qed
    qed
  qed
qed

lemma merge_refs_count:
  "length (merge_refs ticker fn yh) = min 3 (card (found_urls (fn @ yh)))"
proof -
  obtain seen1 out1 where m: "merge_loop fn {} [] = (seen1, out1)" by (cases "merge_loop fn {} []")
  from merge_loop_count [of "[]" "{}" fn] m
  have l1: "length out1 = min 3 (card (found_urls fn))"
    and s1: "length out1 < 3 \<longrightarrow> seen1 = found_urls fn" by simp_all
  show ?thesis
  proof (cases "length out1 \<ge> 3")
    case True
    with l1 have "3 \<le> card (found_urls fn)" by simp
    moreover have "card (found_urls fn) \<le> card (found_urls (fn @ yh))"
      by (rule card_mono) (auto simp: found_urls_append finite_found_urls)
    ultimately show ?thesis using True l1 m by (simp add: merge_refs_def)
  next
    case False
    then have lt: "length out1 < 3" by simp
    with s1 have seen: "seen1 = found_urls fn" by simp
    have fin: "finite seen1" by (simp add: seen finite_found_urls)
    have "card (found_urls fn \<union> (found_urls yh - found_urls fn))
            = card (found_urls fn) + card (found_urls yh - found_urls fn)"
      by (rule card_Un_disjoint) (auto simp: finite_found_urls)
    moreover have "found_urls fn \<union> (found_urls yh - found_urls fn) = found_urls (fn @ yh)"
      by (auto simp: found_urls_append)
    moreover have "length out1 = card (found_urls fn)" using l1 lt by simp
    ultimately show ?thesis
      using merge_loop_count [OF lt fin, of yh] m False seen
      by (simp add: merge_refs_def)
  qed
qed

lemma pad_refs_slots:
  "length rs \<le> 3 \<Longrightarrow>
     length (pad_refs rs) = 3 \<and> length (filter (\<lambda>r. r \<noteq> None) (pad_refs rs)) = length rs"
  by (simp add: pad_refs_def filter_map comp_def)

subsection \<open>The phases of an aggregation\<close>

lemma fetch_news_ok:
  assumes "fetch_news env ticker st = (Inr (fh, yh, err), st1)"
  shows "fh @ yh = news env ticker"
  using assms
  by (auto simp: fetch_news_def provider_def headlines_of_def news_def
           split: sum.splits exn.splits prod.splits)

lemma estimate_spread_cases:
  "estimate_spread L bd ad qual =
     (if needs_estimate bd ad then (L - 0.0004 * L, L + 0.0004 * L, str ''estimated'')
      else (the bd, the ad, qual))"
  by (simp add: estimate_spread_def needs_estimate_def Let_def split: option.splits)

lemma fetch_prices_ok:
  assumes "fetch_prices env ticker st = (Inr (L, b, a, q, cs), st1)"
  shows "\<exists>qt. fetch_quote_tiingo env ticker = Inr qt
            \<and> fetch_candles_tiingo env ticker 120 (str ''1min'') = Inr cs
            \<and> 0 < L
            \<and> (b, a, q) = estimate_spread L (quoted_bid qt) (quoted_ask qt)
                 (observed_quality (quoted_bid qt) (quoted_ask qt) (tiingo_last qt cs))"
proof -
  from assms obtain qt where q: "fetch_quote_tiingo env ticker = Inr qt"
    by (cases "fetch_quote_tiingo env ticker")
       (simp_all add: fetch_prices_def and_then_def provider_def)
  from assms q obtain cs' where c: "fetch_candles_tiingo env ticker 120 (str ''1min'') = Inr cs'"
    by (cases "fetch_candles_tiingo env ticker 120 (str ''1min'')")
       (simp_all add: fetch_prices_def and_then_def provider_def)
  from assms q c show ?thesis
    by (auto simp: fetch_prices_def and_then_def provider_def lift_def done_with_def Let_def
                  split_beta quoted_bid_def quoted_ask_def split: if_splits)
qed



lemma aggregate_ok:
  assumes "aggregate env ticker st = (Inr p, st')"
  shows "\<exists>fh yh err st1 st2 st3 L b a q cs.
           fetch_news env ticker st = (Inr (fh, yh, err), st1)
         \<and> fetch_prices env ticker st2 = (Inr (L, b, a, q, cs), st3)
         \<and> refs p = pad_refs (merge_refs ticker fh yh)
         \<and> mins_since_news (features p) = fst (mins_since_news_of env fh yh st3)
         \<and> quote p = \<lparr>last_px = L, bid = Some b, ask = Some a, quality = q\<rparr>"
proof -
  obtain r st1 where fn: "fetch_news env ticker st = (r, st1)" by (cases "fetch_news env ticker st")
  from assms fn obtain fh yh err where r: "r = Inr (fh, yh, err)"
    by (cases r) (auto simp: aggregate_def)
  let ?hs = "if filter (\<lambda>r. r \<noteq> Map.empty) (take 3 fh) \<noteq> []
             then filter (\<lambda>r. r \<noteq> Map.empty) (take 3 fh)
             else filter (\<lambda>r. r \<noteq> Map.empty) (take 3 yh)"
  obtain sm ss st2 where se: "sent_from_headlines env ?hs st1 = ((sm, ss), st2)"
    by (cases "sent_from_headlines env ?hs st1") auto
  obtain rp st3 where fp: "fetch_prices env ticker st2 = (rp, st3)"
    by (cases "fetch_prices env ticker st2")
  from assms fn r se fp obtain L b a q cs where rp: "rp = Inr (L, b, a, q, cs)"
    by (cases rp) (auto simp: aggregate_def Let_def and_then_def)
  obtain m st4 where mi: "mins_since_news_of env fh yh st3 = (m, st4)"
    by (cases "mins_since_news_of env fh yh st3")
  obtain rr st5 where rv: "returns_and_rv env ticker cs L st4 = (rr, st5)"
    by (cases "returns_and_rv env ticker cs L st4")
  from assms fn r se fp rp mi rv obtain r1 r5 v abv where rr: "rr = Inr (r1, r5, v, abv)"
    by (cases rr) (auto simp: aggregate_def Let_def and_then_def lift_def)
  obtain re st6 where ea: "earnings_soon_of env ticker st5 = (re, st6)"
    by (cases "earnings_soon_of env ticker st5")
  from assms fn r se fp rp mi rv rr ea obtain soon where re: "re = Inr soon"
    by (cases re) (auto simp: aggregate_def Let_def and_then_def lift_def)
  obtain stamp st7 where iso: "iso_now st6 = (stamp, st7)" by (cases "iso_now st6")
  from assms fn r se fp rp mi rv rr ea re iso
  have p: "p = \<lparr>features =
              \<lparr>sent_mean = sm, sent_std = ss, r_1m = r1, r_5m = r5,
               above_sma20 = abv, mins_since_news = m,
               rv20 = min (max v 0.02) 0.80,
               earnings_soon = soon,
               liquidity_flag = liquidity_flag_of L b a cs\<rparr>,
            top_headline = (if fh \<noteq> [] then Some (hd fh) else if yh \<noteq> [] then Some (hd yh) else None),
            refs = pad_refs (merge_refs ticker fh yh),
            refs_sources = map (\<lambda>r. get_or_empty r ''publisher'') (merge_refs ticker fh yh),
            error = err,
            quote = \<lparr>last_px = L, bid = Some b, ask = Some a, quality = q\<rparr>,
            ts = stamp\<rparr>"
    by (simp add: aggregate_def Let_def and_then_def lift_def done_with_def put_cached_def)
  from mi have m: "m = fst (mins_since_news_of env fh yh st3)" by simp
  from p have a1: "refs p = pad_refs (merge_refs ticker fh yh)"
    and a2: "mins_since_news (features p) = fst (mins_since_news_of env fh yh st3)"
    and a3: "quote p = \<lparr>last_px = L, bid = Some b, ask = Some a, quality = q\<rparr>"
    by (simp_all add: m)
  from fn [unfolded r] fp [unfolded rp] a1 a2 a3 show ?thesis by blast
qed

lemma build_cases:
  assumes "build_features_for env ticker st = (Inr p, st')"
  shows "(\<not> is_live env
            \<and> (\<exists>feats stamp. synthetic_feats env = Inr feats
                  \<and> p = synthetic_payload feats None None stamp))
       \<or> (is_live env \<and> CACHE st ticker = Some p)
       \<or> (is_live env \<and> CACHE st ticker = None
            \<and> (\<exists>feats top_h err stamp. synthetic_feats env = Inr feats
                  \<and> p = synthetic_payload feats top_h (Some err) stamp))
       \<or> (is_live env \<and> CACHE st ticker = None
            \<and> (\<exists>st1 st2. aggregate env ticker st1 = (Inr p, st2)))"
proof (cases "is_live env")
  case False
  with assms show ?thesis
    by (auto simp: build_features_for_def split_beta split: sum.splits)
next
  case live: True
  show ?thesis
  proof (cases "CACHE st ticker")
    case (Some c)
    with assms live show ?thesis by (simp add: build_features_for_def get_cached_def)
  next
    case None
    let ?st1 = "st\<lparr>calls := calls st @ [GetCached ticker]\<rparr>"
    obtain r st2 where ag: "aggregate env ticker ?st1 = (r, st2)"
      by (cases "aggregate env ticker ?st1")
    show ?thesis
    proof (cases r)
      case (Inr p')
      with assms live None ag have "p' = p"
        by (simp add: build_features_for_def get_cached_def)
      with ag Inr live None show ?thesis by blast
    next
      case (Inl f)
      obtain e top_h where f: "f = (e, top_h)" by (cases f)
      from assms live None ag Inl f
      have "\<exists>feats err stamp. synthetic_feats env = Inr feats
                \<and> p = synthetic_payload feats top_h (Some err) stamp"
        by (auto simp: build_features_for_def get_cached_def put_cached_def Let_def split_beta
                 split: sum.splits)
      with live None show ?thesis by blast
    qed
  qed
qed

lemma live_run:
  "fst (build_features_for live_env (str ''X'') fresh) = Inr live_payload"
  apply (simp add: build_features_for_def aggregate_def is_live_def live_env_def fresh_def get_cached_def
    put_cached_def fetch_news_def provider_def merge_refs_def pad_refs_def sent_from_headlines_def
    fetch_prices_def and_then_def lift_def done_with_def pure_result_def tiingo_last_def
    price_or_zero_def or_None_def observed_quality_def finnhub_last_def note_quote_def now_def
    deque_append_def minute_def estimate_spread_def mins_since_news_of_def parse_iso_aware_def
    returns_and_rv_def ret_from_ring_def earnings_soon_of_def liquidity_flag_of_def iso_now_def
    get_or_empty_def strip_def isspace_def str_def replace_Z_def Let_def live_payload_def live_headline_def py_int_def lastn_def)
  apply (simp add: numeral_2_eq_2)
  done

lemma quiet_run:
  "fst (build_features_for quiet_env (str ''X'') fresh) = Inr quiet_payload"
  apply (simp add: build_features_for_def aggregate_def is_live_def quiet_env_def live_env_def fresh_def get_cached_def
    put_cached_def fetch_news_def provider_def merge_refs_def pad_refs_def sent_from_headlines_def
    fetch_prices_def and_then_def lift_def done_with_def pure_result_def tiingo_last_def
    price_or_zero_def or_None_def observed_quality_def finnhub_last_def note_quote_def now_def
    deque_append_def minute_def estimate_spread_def mins_since_news_of_def parse_iso_aware_def
    returns_and_rv_def ret_from_ring_def earnings_soon_of_def liquidity_flag_of_def iso_now_def
    get_or_empty_def strip_def isspace_def str_def replace_Z_def Let_def quiet_payload_def quiet_headline_def py_int_def lastn_def)
  apply (simp add: numeral_2_eq_2)
  done

subsection \<open>The payload in every mode\<close>


lemma live_facts:
  "is_live live_env" "is_live quiet_env" "\<not> is_live demo_env" "CACHE fresh (str ''X'') = None"
  by (simp_all add: is_live_def live_env_def quiet_env_def demo_env_def fresh_def)

text \<open>
  C1, as the code has it. A payload returned by \<open>build_features_for\<close> has no \<open>refs\<close> slot at
  all in non-live mode and after a total failure (the payload without a bid); a cache hit
  returns the stored payload as it is; and a payload aggregated from the providers has
  exactly 3 slots, the references first and \<open>None\<close> in the others, the number of references
  being the number of distinct URLs among the headlines of both sources that have a title
  and a URL, capped at 3.
\<close>

theorem refs_slots:
  assumes "build_features_for env ticker st = (Inr p, st')"
  shows "(\<not> is_live env \<longrightarrow> refs p = [])
       \<and> (is_live env \<longrightarrow> (\<forall>c. CACHE st ticker = Some c \<longrightarrow> p = c))
       \<and> (is_live env \<and> CACHE st ticker = None \<longrightarrow>
            (if bid (quote p) = None then refs p = []
             else length (refs p) = 3
                \<and> length (filter (\<lambda>r. r \<noteq> None) (refs p))
                    = min 3 (card (found_urls (news env ticker)))
                \<and> (\<exists>rs. refs p = map Some rs @ replicate (3 - length rs) None)))"
proof -
  from build_cases [OF assms] consider
      (demo) feats stamp where "\<not> is_live env" "p = synthetic_payload feats None None stamp"
    | (hit) "is_live env" "CACHE st ticker = Some p"
    | (failed) feats top_h err stamp where "is_live env" "CACHE st ticker = None"
        "p = synthetic_payload feats top_h (Some err) stamp"
    | (built) st1 st2 where "is_live env" "CACHE st ticker = None"
        "aggregate env ticker st1 = (Inr p, st2)"
    by blast
  then show ?thesis
  proof cases
    case demo
    then show ?thesis by (simp add: synthetic_payload_def)
  next
    case hit
    then show ?thesis by simp
  next
    case failed
    then show ?thesis by (simp add: synthetic_payload_def)
  next
    case built
    from aggregate_ok [OF built(3)] obtain fh yh err sa sb sc L b a q cs where
      fn: "fetch_news env ticker st1 = (Inr (fh, yh, err), sa)"
      and r: "refs p = pad_refs (merge_refs ticker fh yh)"
      and qu: "quote p = \<lparr>last_px = L, bid = Some b, ask = Some a, quality = q\<rparr>"
      by blast
    have n: "length (merge_refs ticker fh yh) = min 3 (card (found_urls (news env ticker)))"
      using merge_refs_count [of ticker fh yh] fetch_news_ok [OF fn] by simp
    then have le: "length (merge_refs ticker fh yh) \<le> 3" by simp
    from pad_refs_slots [OF le] r n
    have "length (refs p) = 3"
      and "length (filter (\<lambda>r. r \<noteq> None) (refs p)) = min 3 (card (found_urls (news env ticker)))"
      by simp_all
    moreover from r have "\<exists>rs. refs p = map Some rs @ replicate (3 - length rs) None"
      unfolding pad_refs_def by blast
    moreover from qu have "bid (quote p) \<noteq> None" by simp
    ultimately show ?thesis using built(1,2) by auto
  qed
qed

theorem refs_slots_witness:
  "is_live live_env \<and> CACHE fresh (str ''X'') = None
   \<and> fst (build_features_for live_env (str ''X'') fresh) = Inr live_payload
   \<and> length (refs live_payload) = 3
   \<and> length (filter (\<lambda>r. r \<noteq> None) (refs live_payload)) = 1
   \<and> card (found_urls (news live_env (str ''X''))) = 1"
proof -
  have run: "build_features_for live_env (str ''X'') fresh
               = (Inr live_payload, snd (build_features_for live_env (str ''X'') fresh))"
    using live_run by (simp add: prod_eq_iff)
  have c: "card (found_urls (news live_env (str ''X''))) = 1"
    by (simp add: news_def headlines_of_def live_env_def found_urls_Cons found_urls_Nil
                  get_or_empty_def strip_def isspace_def str_def)
  from refs_slots [OF run] live_facts(1,4) live_run c show ?thesis
    by (simp add: live_payload_def)
qed

text \<open>
  C1 as stated fails: in non-live mode the returned payload has no \<open>refs\<close> slot, not 3.
\<close>

theorem refs_non_live_empty_counterexample:
  "\<not> is_live demo_env
   \<and> build_features_for demo_env (str ''X'') fresh =
     (Inr (synthetic_payload
            \<lparr>sent_mean = 0, sent_std = 0.05, r_1m = 0, r_5m = 0, above_sma20 = False,
             mins_since_news = 12, rv20 = 0.02, earnings_soon = False, liquidity_flag = True\<rparr>
            None None 0), fresh)
   \<and> length (refs (synthetic_payload
            \<lparr>sent_mean = 0, sent_std = 0.05, r_1m = 0, r_5m = 0, above_sma20 = False,
             mins_since_news = 12, rv20 = 0.02, earnings_soon = False, liquidity_flag = True\<rparr>
            None None 0)) = 0"
  using demo_run live_facts(3) by (simp add: synthetic_payload_def)




text \<open>
  C4, as the code has it. The synthetic payloads (non-live mode and total failure) carry
  the quote \<open>{last: 0, bid: None, ask: None, quality: "unknown"}\<close>; a cache hit returns the
  stored payload as it is; and in a payload aggregated from the providers the last price
  is positive and
  \<^item> the quality is \<open>"estimated"\<close>, with bid and ask 4 basis points below and above the last
    price, exactly when the Tiingo quote lacks a bid or an ask (missing or zero) or has
    \<open>ask \<le> bid\<close>;
  \<^item> otherwise bid and ask are the quoted ones, and the quality is \<open>"real"\<close> when Tiingo
    also gave a positive last price (its quote's \<open>last\<close>, or else the last candle's close)
    and \<open>"unknown"\<close> when it did not.
\<close>

theorem quote_quality:
  assumes "build_features_for env ticker st = (Inr p, st')"
  shows "(\<not> is_live env \<longrightarrow>
            quote p = \<lparr>last_px = 0, bid = None, ask = None, quality = str ''unknown''\<rparr>)
       \<and> (is_live env \<longrightarrow> (\<forall>c. CACHE st ticker = Some c \<longrightarrow> p = c))
       \<and> (is_live env \<and> CACHE st ticker = None \<longrightarrow>
            quote p = \<lparr>last_px = 0, bid = None, ask = None, quality = str ''unknown''\<rparr>
          \<or> (\<exists>qt cs. fetch_quote_tiingo env ticker = Inr qt
                 \<and> fetch_candles_tiingo env ticker 120 (str ''1min'') = Inr cs
                 \<and> 0 < last_px (quote p)
                 \<and> (if needs_estimate (quoted_bid qt) (quoted_ask qt)
                    then bid (quote p) = Some (last_px (quote p) - 0.0004 * last_px (quote p))
                       \<and> ask (quote p) = Some (last_px (quote p) + 0.0004 * last_px (quote p))
                       \<and> quality (quote p) = str ''estimated''
                    else bid (quote p) = quoted_bid qt \<and> ask (quote p) = quoted_ask qt
                       \<and> quality (quote p)
                           = (if 0 < tiingo_last qt cs then str ''real'' else str ''unknown''))))"
proof -
  from build_cases [OF assms] consider
      (demo) feats stamp where "\<not> is_live env" "p = synthetic_payload feats None None stamp"
    | (hit) "is_live env" "CACHE st ticker = Some p"
    | (failed) feats top_h err stamp where "is_live env" "CACHE st ticker = None"
        "p = synthetic_payload feats top_h (Some err) stamp"
    | (built) st1 st2 where "is_live env" "CACHE st ticker = None"
        "aggregate env ticker st1 = (Inr p, st2)"
    by blast
  then show ?thesis
  proof cases
    case demo
    then show ?thesis by (simp add: synthetic_payload_def)
  next
    case hit
    then show ?thesis by simp
  next
    case failed
    then show ?thesis by (simp add: synthetic_payload_def)
  next
    case built
    from aggregate_ok [OF built(3)] obtain fh yh err sa sb sc L b a q cs where
      fp: "fetch_prices env ticker sb = (Inr (L, b, a, q, cs), sc)"
      and qu: "quote p = \<lparr>last_px = L, bid = Some b, ask = Some a, quality = q\<rparr>"
      by blast
    from fetch_prices_ok [OF fp] obtain qt where
      qt: "fetch_quote_tiingo env ticker = Inr qt"
      and cs: "fetch_candles_tiingo env ticker 120 (str ''1min'') = Inr cs"
      and pos: "0 < L"
      and est: "(b, a, q) = estimate_spread L (quoted_bid qt) (quoted_ask qt)
                  (observed_quality (quoted_bid qt) (quoted_ask qt) (tiingo_last qt cs))"
      by blast
    have "if needs_estimate (quoted_bid qt) (quoted_ask qt)
          then bid (quote p) = Some (last_px (quote p) - 0.0004 * last_px (quote p))
             \<and> ask (quote p) = Some (last_px (quote p) + 0.0004 * last_px (quote p))
             \<and> quality (quote p) = str ''estimated''
          else bid (quote p) = quoted_bid qt \<and> ask (quote p) = quoted_ask qt
             \<and> quality (quote p)
                 = (if 0 < tiingo_last qt cs then str ''real'' else str ''unknown'')"
      using est unfolding qu estimate_spread_cases
      by (auto simp: needs_estimate_def observed_quality_def split: option.splits)
    with qt cs pos qu have
      "\<exists>qt cs. fetch_quote_tiingo env ticker = Inr qt
          \<and> fetch_candles_tiingo env ticker 120 (str ''1min'') = Inr cs
          \<and> 0 < last_px (quote p)
          \<and> (if needs_estimate (quoted_bid qt) (quoted_ask qt)
             then bid (quote p) = Some (last_px (quote p) - 0.0004 * last_px (quote p))
                \<and> ask (quote p) = Some (last_px (quote p) + 0.0004 * last_px (quote p))
                \<and> quality (quote p) = str ''estimated''
             else bid (quote p) = quoted_bid qt \<and> ask (quote p) = quoted_ask qt
                \<and> quality (quote p)
                    = (if 0 < tiingo_last qt cs then str ''real'' else str ''unknown''))"
      by (intro exI [of _ qt] exI [of _ cs]) simp
    then have "quote p = \<lparr>last_px = 0, bid = None, ask = None, quality = str ''unknown''\<rparr>
        \<or> (\<exists>qt cs. fetch_quote_tiingo env ticker = Inr qt
          \<and> fetch_candles_tiingo env ticker 120 (str ''1min'') = Inr cs
          \<and> 0 < last_px (quote p)
          \<and> (if needs_estimate (quoted_bid qt) (quoted_ask qt)
             then bid (quote p) = Some (last_px (quote p) - 0.0004 * last_px (quote p))
                \<and> ask (quote p) = Some (last_px (quote p) + 0.0004 * last_px (quote p))
                \<and> quality (quote p) = str ''estimated''
             else bid (quote p) = quoted_bid qt \<and> ask (quote p) = quoted_ask qt
                \<and> quality (quote p)
                    = (if 0 < tiingo_last qt cs then str ''real'' else str ''unknown'')))"
      by (rule disjI2)
    with built(1,2) show ?thesis by simp
  qed
qed

theorem quote_quality_witness:
  "is_live quiet_env \<and> CACHE fresh (str ''X'') = None
   \<and> fst (build_features_for quiet_env (str ''X'') fresh) = Inr quiet_payload
   \<and> fetch_quote_tiingo quiet_env (str ''X'') = Inr \<lparr>q_last = Some 100, q_bid = None, q_ask = None\<rparr>
   \<and> needs_estimate (quoted_bid \<lparr>q_last = Some 100, q_bid = None, q_ask = None\<rparr>)
         (quoted_ask \<lparr>q_last = Some 100, q_bid = None, q_ask = None\<rparr>)
   \<and> quote quiet_payload
       = \<lparr>last_px = 100, bid = Some 99.96, ask = Some 100.04, quality = str ''estimated''\<rparr>"
proof -
  have run: "build_features_for quiet_env (str ''X'') fresh
               = (Inr quiet_payload, snd (build_features_for quiet_env (str ''X'') fresh))"
    using quiet_run by (simp add: prod_eq_iff)
  from quote_quality [OF run] live_facts(2,4) quiet_run show ?thesis
    by (simp add: quiet_payload_def quiet_env_def live_env_def needs_estimate_def quoted_bid_def
                  quoted_ask_def price_or_zero_def or_None_def)
qed

text \<open>
  C4 as stated fails: Tiingo quotes bid 99 and ask 101 but no last price and no candle,
  Finnhub gives the last price 100. The payload is aggregated from the providers, bid and
  ask are the observed ones with \<open>ask > bid\<close>, and the quality is \<open>"unknown"\<close>, not \<open>"real"\<close>.
\<close>

theorem quote_quality_unknown_counterexample:
  "is_live live_env \<and> CACHE fresh (str ''X'') = None
   \<and> fst (build_features_for live_env (str ''X'') fresh) = Inr live_payload
   \<and> fetch_quote_tiingo live_env (str ''X'') = Inr \<lparr>q_last = None, q_bid = Some 99, q_ask = Some 101\<rparr>
   \<and> quote live_payload
       = \<lparr>last_px = 100, bid = Some 99, ask = Some 101, quality = str ''unknown''\<rparr>
   \<and> length (refs live_payload) = 3
   \<and> str ''unknown'' \<noteq> str ''real''"
  using live_run live_facts(1,4) by (simp add: live_payload_def live_env_def str_def)

end
